theory Spec2Isabelle
  imports Complex_Main "HOL-Library.Multiset" "HOL-Library.AList"
begin
section \<open>Python values and errors\<close>

text \<open>
  The exceptions the analysis functions of \<^verbatim>\<open>megasena.py\<close> can raise are values
  of the type \<open>error\<close>; a function that can raise returns \<open>error + 'a\<close>.
\<close>

datatype error = KeyError | TypeError | ValueError | OverflowError

section \<open>The suggestion engine\<close>

text \<open>
  \<^verbatim>\<open>random.shuffle\<close> and \<^verbatim>\<open>random.sample\<close> belong to the Python standard library.
  They are parameters of the model: a random source over a generator state \<open>'g\<close> that
  every call advances. \<open>random_contract\<close> is what the library documents: a shuffle
  permutes its list, and a sample of \<open>k\<close> out of a population of at least \<open>k\<close> values
  picks \<open>k\<close> of its positions without replacement.
\<close>

record 'g random_source =
  rnd_shuffle :: "'g \<Rightarrow> int list \<Rightarrow> int list \<times> 'g"
  rnd_sample :: "'g \<Rightarrow> int list \<Rightarrow> nat \<Rightarrow> int list \<times> 'g"

definition random_contract :: "'g random_source \<Rightarrow> bool" where
  "random_contract R \<longleftrightarrow>
     (\<forall>g xs. mset (fst (rnd_shuffle R g xs)) = mset xs) \<and>
     (\<forall>g xs k. k \<le> length xs \<longrightarrow>
        length (fst (rnd_sample R g xs k)) = k \<and> mset (fst (rnd_sample R g xs k)) \<subseteq># mset xs)"

text \<open>\<^verbatim>\<open>random.sample(population, k)\<close> raises ValueError unless \<open>0 \<le> k \<le> len(population)\<close>.\<close>

definition py_sample :: "'g random_source \<Rightarrow> 'g \<Rightarrow> int list \<Rightarrow> int \<Rightarrow> error + (int list \<times> 'g)" where
  "py_sample R g population k =
     (if 0 \<le> k \<and> k \<le> int (length population) then Inr (rnd_sample R g population (nat k))
      else Inl ValueError)"

text \<open>
  The first loop of \<^verbatim>\<open>suggest_numbers\<close>:
  \<^verbatim>\<open>for num in most_common: if len(suggested_set) < num_to_suggest: add else: break\<close>.
\<close>

fun add_most_common :: "int set \<Rightarrow> int list \<Rightarrow> int \<Rightarrow> int set" where
  "add_most_common suggested_set [] num_to_suggest = suggested_set"
| "add_most_common suggested_set (num # rest) num_to_suggest =
     (if int (card suggested_set) < num_to_suggest
      then add_most_common (insert num suggested_set) rest num_to_suggest
      else suggested_set)"

text \<open>
  The second loop: the test joins the size bound and the membership test with \<^verbatim>\<open>and\<close>,
  and its \<^verbatim>\<open>else\<close> branch is \<^verbatim>\<open>break\<close>.
\<close>

fun add_least_common :: "int set \<Rightarrow> int list \<Rightarrow> int \<Rightarrow> int set" where
  "add_least_common suggested_set [] num_to_suggest = suggested_set"
| "add_least_common suggested_set (num # rest) num_to_suggest =
     (if int (card suggested_set) < num_to_suggest \<and> num \<notin> suggested_set
      then add_least_common (insert num suggested_set) rest num_to_suggest
      else suggested_set)"

text \<open>
  The same loop as step 3 of the specification words it: a number already in the set is
  skipped, and the loop goes on until the set has the ticket size or the list ends.
\<close>

fun spec_add_least_common :: "int set \<Rightarrow> int list \<Rightarrow> int \<Rightarrow> int set" where
  "spec_add_least_common suggested_set [] num_to_suggest = suggested_set"
| "spec_add_least_common suggested_set (num # rest) num_to_suggest =
     (if int (card suggested_set) < num_to_suggest
      then (if num \<in> suggested_set
            then spec_add_least_common suggested_set rest num_to_suggest
            else spec_add_least_common (insert num suggested_set) rest num_to_suggest)
      else suggested_set)"

text \<open>
  The \<^verbatim>\<open>while\<close> loop: while the set is too small and numbers are available, the first
  available number is popped and added.
\<close>

fun fill_random :: "int set \<Rightarrow> int list \<Rightarrow> int \<Rightarrow> int set" where
  "fill_random suggested_set [] num_to_suggest = suggested_set"
| "fill_random suggested_set (a # available_numbers) num_to_suggest =
     (if int (card suggested_set) < num_to_suggest
      then fill_random (insert a suggested_set) available_numbers num_to_suggest
      else suggested_set)"

definition all_possible_numbers :: "int set" where
  "all_possible_numbers = {1..60}"

text \<open>
  \<^verbatim>\<open>list(a_set)\<close> enumerates a Python set in an order the language leaves open; the
  model enumerates it in ascending order. Both places where the source does so shuffle
  the list at once, and \<^verbatim>\<open>sorted(list(suggested_set))\<close> sorts it.
\<close>

definition suggest_numbers ::
  "'g random_source \<Rightarrow> 'g \<Rightarrow> int list \<Rightarrow> int list \<Rightarrow> int \<Rightarrow> error + (int list \<times> 'g)" where
  "suggest_numbers R g most_common least_common num_to_suggest =
     (let s1 = add_most_common {} most_common num_to_suggest;
          s2 = add_least_common s1 least_common num_to_suggest;
          (available_numbers, g1) =
             rnd_shuffle R g (sorted_list_of_set (all_possible_numbers - s2));
          suggested_set = fill_random s2 available_numbers num_to_suggest;
          final_suggestion = sorted_list_of_set suggested_set
      in if int (length final_suggestion) > num_to_suggest then
           (case py_sample R g1 final_suggestion num_to_suggest of
              Inl e \<Rightarrow> Inl e
            | Inr (smp, g2) \<Rightarrow> Inr (sort smp, g2))
         else if int (length final_suggestion) < num_to_suggest then
           (let remaining_needed = num_to_suggest - int (length final_suggestion);
                (remaining_available, g2) =
                   rnd_shuffle R g1 (sorted_list_of_set (all_possible_numbers - suggested_set))
            in case py_sample R g2 remaining_available
                      (min remaining_needed (int (length remaining_available))) of
                 Inl e \<Rightarrow> Inl e
               | Inr (smp, g3) \<Rightarrow> Inr (sort (final_suggestion @ smp), g3))
         else Inr (final_suggestion, g1))"

text \<open>
  A random source to run the model on: it reverses where the library would shuffle and
  samples the first \<open>k\<close> values; the generator state counts the calls.
\<close>

definition demo_source :: "nat random_source" where
  "demo_source =
     \<lparr> rnd_shuffle = (\<lambda>g xs. (rev xs, Suc g)), rnd_sample = (\<lambda>g xs k. (take k xs, Suc g)) \<rparr>"

section \<open>Data frames and the draw history\<close>

text \<open>
  A pandas DataFrame is a number of rows and an ordered list of named columns, each
  holding one cell per row. A cell is a Python int (a bool is the int 0 or 1), a finite
  float, read as the real number it denotes, an infinite float (\<open>InfC True\<close> is the
  positive one), a missing value (NaN, None) or any other object (a string, a
  timestamp), kept as text. Ints are taken inside the int64 range, where the integer
  arithmetic of pandas does not wrap.
\<close>

datatype cell = IntC int | FloatC real | InfC bool | NaC | ObjC string

record dataframe =
  df_rows :: nat
  df_columns :: "(string \<times> cell list) list"

definition wf_dataframe :: "dataframe \<Rightarrow> bool" where
  "wf_dataframe data \<longleftrightarrow>
     distinct (map fst (df_columns data)) \<and>
     list_all (\<lambda>c. length (snd c) = df_rows data) (df_columns data)"

text \<open>\<^verbatim>\<open>data.empty\<close>: one of the two axes has length 0.\<close>

definition df_empty :: "dataframe \<Rightarrow> bool" where
  "df_empty data \<longleftrightarrow> df_rows data = 0 \<or> df_columns data = []"

text \<open>\<^verbatim>\<open>data[name]\<close> raises KeyError for a column that is not there.\<close>

definition get_col :: "dataframe \<Rightarrow> string \<Rightarrow> error + cell list" where
  "get_col data name =
     (case map_of (df_columns data) name of None \<Rightarrow> Inl KeyError | Some col \<Rightarrow> Inr col)"

fun get_cols :: "dataframe \<Rightarrow> string list \<Rightarrow> error + cell list list" where
  "get_cols data [] = Inr []"
| "get_cols data (name # names) =
     (case get_col data name of
        Inl e \<Rightarrow> Inl e
      | Inr col \<Rightarrow> (case get_cols data names of Inl e \<Rightarrow> Inl e | Inr cols \<Rightarrow> Inr (col # cols)))"

text \<open>
  \<^verbatim>\<open>data[name] = col\<close> replaces the column in place when the frame has it and appends it
  otherwise. It changes the frame the caller passed.
\<close>

definition set_col :: "dataframe \<Rightarrow> string \<Rightarrow> cell list \<Rightarrow> dataframe" where
  "set_col data name col = data\<lparr>df_columns := AList.update name col (df_columns data)\<rparr>"

text \<open>The column names \<^verbatim>\<open>f'Dezena{i}'\<close> for \<open>i\<close> in \<^verbatim>\<open>range(1, 7)\<close>.\<close>

definition dezena_cols :: "string list" where
  "dezena_cols = [''Dezena1'', ''Dezena2'', ''Dezena3'', ''Dezena4'', ''Dezena5'', ''Dezena6'']"

text \<open>
  A draw record of the history: the draw number, the date as scraped, and the drawn
  numbers. \<open>frame_of\<close> is the frame \<^verbatim>\<open>fetch_megasena_data\<close> builds from the records it
  has kept (each with six numbers): the columns Concurso, Data and Dezena1 to Dezena6,
  one row per record.
\<close>

record draw_record =
  concurso :: int
  data_sorteio :: string
  dezenas :: "int list"

definition frame_of :: "draw_record list \<Rightarrow> dataframe" where
  "frame_of history =
     \<lparr> df_rows = length history,
       df_columns =
         (''Concurso'', map (\<lambda>r. IntC (concurso r)) history) #
         (''Data'', map (\<lambda>r. ObjC (data_sorteio r)) history) #
         map (\<lambda>k. (dezena_cols ! k, map (\<lambda>r. IntC (dezenas r ! k)) history)) [0..<6] \<rparr>"

text \<open>A record as the data model wants it: exactly six distinct numbers, each in 1..60.\<close>

definition valid_record :: "draw_record \<Rightarrow> bool" where
  "valid_record r \<longleftrightarrow>
     length (dezenas r) = 6 \<and> distinct (dezenas r) \<and> list_all (\<lambda>n. 1 \<le> n \<and> n \<le> 60) (dezenas r)"

section \<open>Floating-point arithmetic\<close>

text \<open>
  A float64 value is finite, infinite or NaN. What an operation on finite floats returns
  depends on its rounding, so the scalar operations are parameters of the model: the
  conversion from an int, the four operations and the square root, all on finite values
  with a finite result. The comparison of finite floats is the comparison of the reals
  they denote. The literals of the source (0.0, 1.5, 100) are floats as they stand.
\<close>

datatype fval = Fin real | Infty bool | NaN

record float_ops =
  f_of_int :: "int \<Rightarrow> real"
  f_add :: "real \<Rightarrow> real \<Rightarrow> real"
  f_sub :: "real \<Rightarrow> real \<Rightarrow> real"
  f_mul :: "real \<Rightarrow> real \<Rightarrow> real"
  f_div :: "real \<Rightarrow> real \<Rightarrow> real"
  f_sqrt :: "real \<Rightarrow> real"

text \<open>Exact arithmetic: no operation rounds.\<close>

definition exact_ops :: float_ops where
  "exact_ops =
     \<lparr> f_of_int = real_of_int, f_add = (+), f_sub = (-), f_mul = (*), f_div = (/), f_sqrt = sqrt \<rparr>"

text \<open>Rounding to the nearest integer, a tie going to the even one.\<close>

definition round_half_even :: "real \<Rightarrow> int" where
  "round_half_even t =
     (let f = \<lfloor>t\<rfloor>; d = t - real_of_int f
      in if d < 1 / 2 then f else if 1 / 2 < d then f + 1 else if even f then f else f + 1)"

definition pow2 :: "int \<Rightarrow> real" where
  "pow2 e = (if 0 \<le> e then 2 ^ nat e else 1 / 2 ^ nat (- e))"

text \<open>
  The binary64 arithmetic of IEEE 754: every operation returns the exact result rounded
  to the nearest value with a 53-bit significand, a tie going to the even significand.
  \<open>fl\<close> is that rounding for results in the normal range (no overflow, no subnormal
  result): with \<open>2^e \<le> |x| < 2^(e+1)\<close> the spacing of the floats around \<open>x\<close> is
  \<open>2^(e-52)\<close>.
\<close>

definition fl :: "real \<Rightarrow> real" where
  "fl x =
     (if x = 0 then 0
      else
        let e = \<lfloor>log 2 \<bar>x\<bar>\<rfloor>; ulp = pow2 (e - 52)
        in sgn x * real_of_int (round_half_even (\<bar>x\<bar> / ulp)) * ulp)"

definition binary64 :: float_ops where
  "binary64 =
     \<lparr> f_of_int = (\<lambda>i. fl (real_of_int i)),
       f_add = (\<lambda>x y. fl (x + y)), f_sub = (\<lambda>x y. fl (x - y)),
       f_mul = (\<lambda>x y. fl (x * y)), f_div = (\<lambda>x y. fl (x / y)),
       f_sqrt = (\<lambda>x. fl (sqrt x)) \<rparr>"

text \<open>
  The functions of numpy that reduce or combine whole arrays are parameters too, since
  the order in which numpy adds is internal to it: \<^verbatim>\<open>np.sum\<close>, \<^verbatim>\<open>np.std\<close> (the
  population standard deviation) and the core of \<^verbatim>\<open>np.convolve(a, v, 'same')\<close> for
  \<open>v\<close> not longer than \<open>a\<close> and neither empty. \<open>numpy_contract\<close> is the one fact about
  them that is used: in mode \<^verbatim>\<open>'same'\<close> the result is as long as the longer argument.
\<close>

record numpy_ops =
  np_sum :: "real list \<Rightarrow> real"
  np_std :: "real list \<Rightarrow> real"
  np_correlate_same :: "real list \<Rightarrow> real list \<Rightarrow> real list"


text \<open>
  A reading of these functions over given scalar operations, adding from left to right.
  The full convolution has entry \<open>k\<close> equal to the sum of \<open>a[j] * v[k - j]\<close>; mode
  \<^verbatim>\<open>'same'\<close> returns its middle \<open>len a\<close> entries, starting at \<open>(len v - 1) div 2\<close>. The
  standard deviation is the root of the mean squared deviation from the mean.
\<close>

definition seq_sum :: "float_ops \<Rightarrow> real list \<Rightarrow> real" where
  "seq_sum F xs = fold (\<lambda>x acc. f_add F acc x) xs 0"

definition seq_mean :: "float_ops \<Rightarrow> real list \<Rightarrow> real" where
  "seq_mean F xs = f_div F (seq_sum F xs) (f_of_int F (int (length xs)))"

definition seq_std :: "float_ops \<Rightarrow> real list \<Rightarrow> real" where
  "seq_std F xs =
     f_sqrt F (seq_mean F (map (\<lambda>x. f_mul F (f_sub F x (seq_mean F xs)) (f_sub F x (seq_mean F xs))) xs))"

definition seq_convolve_full :: "float_ops \<Rightarrow> real list \<Rightarrow> real list \<Rightarrow> real list" where
  "seq_convolve_full F a v =
     map (\<lambda>k. seq_sum F (map (\<lambda>j. f_mul F (a ! j) (v ! (k - j)))
                            (filter (\<lambda>j. j \<le> k \<and> k - j < length v) [0..<length a])))
       [0..<length a + length v - 1]"

definition seq_correlate_same :: "float_ops \<Rightarrow> real list \<Rightarrow> real list \<Rightarrow> real list" where
  "seq_correlate_same F a v =
     take (length a) (drop ((length v - 1) div 2) (seq_convolve_full F a v))"

definition seq_numpy :: "float_ops \<Rightarrow> numpy_ops" where
  "seq_numpy F =
     \<lparr> np_sum = seq_sum F, np_std = seq_std F, np_correlate_same = seq_correlate_same F \<rparr>"

section \<open>Sorting a series\<close>

text \<open>
  A pandas Series with integer labels is a list of (label, value) pairs.
  \<^verbatim>\<open>sort_values(ascending=False)\<close> orders it by falling value. How pandas orders equal
  values is internal to it; the model keeps them in their order of arrival.
\<close>

definition sort_values_desc :: "(int \<times> 'a::linordered_idom) list \<Rightarrow> (int \<times> 'a) list" where
  "sort_values_desc series = sort_key (\<lambda>kv. - snd kv) series"

text \<open>The distinct values of a list, in the order of their first occurrence.\<close>

definition unique :: "'a list \<Rightarrow> 'a list" where
  "unique xs = rev (remdups (rev xs))"

text \<open>\<^verbatim>\<open>pd.Series(xs).value_counts()\<close>: each distinct value with its count, by falling count.\<close>

definition value_counts :: "int list \<Rightarrow> (int \<times> int) list" where
  "value_counts xs = sort_values_desc (map (\<lambda>v. (v, int (count_list xs v))) (unique xs))"

section \<open>The frequency analyzer\<close>

definition dropna :: "cell list \<Rightarrow> cell list" where
  "dropna col = filter (\<lambda>c. c \<noteq> NaC) col"

text \<open>\<^verbatim>\<open>int(x)\<close> on a float truncates towards zero.\<close>

definition py_trunc :: "real \<Rightarrow> int" where
  "py_trunc x = (if 0 \<le> x then \<lfloor>x\<rfloor> else \<lceil>x\<rceil>)"

text \<open>\<^verbatim>\<open>isinstance(n, (int, float))\<close>; the infinities and NaN are floats.\<close>

fun is_number :: "cell \<Rightarrow> bool" where
  "is_number (IntC i) = True"
| "is_number (FloatC x) = True"
| "is_number (InfC s) = True"
| "is_number NaC = True"
| "is_number (ObjC s) = False"

text \<open>
  \<^verbatim>\<open>int(n)\<close>: it raises OverflowError on an infinite float, ValueError on NaN and on
  text that is no numeral.
\<close>

fun py_int :: "cell \<Rightarrow> error + int" where
  "py_int (IntC i) = Inr i"
| "py_int (FloatC x) = Inr (py_trunc x)"
| "py_int (InfC s) = Inl OverflowError"
| "py_int NaC = Inl ValueError"
| "py_int (ObjC s) = Inl ValueError"

fun is_inf :: "cell \<Rightarrow> bool" where
  "is_inf (InfC s) = True"
| "is_inf c = False"

text \<open>
  The comprehension
  \<^verbatim>\<open>[int(n) for n in numbers if isinstance(n, (int, float)) and 1 <= int(n) <= 60]\<close>.
\<close>

fun numeric_numbers_of :: "cell list \<Rightarrow> error + int list" where
  "numeric_numbers_of [] = Inr []"
| "numeric_numbers_of (n # numbers) =
     (if is_number n then
        (case py_int n of
           Inl e \<Rightarrow> Inl e
         | Inr v \<Rightarrow>
             (case numeric_numbers_of numbers of
                Inl e \<Rightarrow> Inl e
              | Inr rest \<Rightarrow> Inr (if 1 \<le> v \<and> v \<le> 60 then v # rest else rest)))
      else numeric_numbers_of numbers)"

text \<open>
  What the comprehension makes of one cell that is not an infinite float: an int in
  1..60 is kept, a finite float is kept as its truncation when that lies in 1..60,
  anything else is dropped.
\<close>

fun accepted :: "cell \<Rightarrow> int option" where
  "accepted (IntC i) = (if 1 \<le> i \<and> i \<le> 60 then Some i else None)"
| "accepted (FloatC x) = (if 1 \<le> py_trunc x \<and> py_trunc x \<le> 60 then Some (py_trunc x) else None)"
| "accepted (InfC s) = None"
| "accepted NaC = None"
| "accepted (ObjC s) = None"

text \<open>The first loop: the Dezena columns the frame has, without their missing values.\<close>

definition collect_numbers :: "dataframe \<Rightarrow> cell list" where
  "collect_numbers data =
     concat (map (\<lambda>col_name. case map_of (df_columns data) col_name of
                                None \<Rightarrow> [] | Some col \<Rightarrow> dropna col) dezena_cols)"

text \<open>
  \<^verbatim>\<open>analyze_numbers\<close> returns the frequency series, the labels of its first
  \<open>min 4 len\<close> and of its last \<open>min 2 len\<close> entries, and the flat list of valid numbers.
  The warning it shows on an empty list is presentation and is left out.
\<close>

definition analyze_numbers ::
  "dataframe \<Rightarrow> error + ((int \<times> int) list \<times> int list \<times> int list \<times> int list)" where
  "analyze_numbers data =
     (case numeric_numbers_of (collect_numbers data) of
        Inl e \<Rightarrow> Inl e
      | Inr numeric_numbers \<Rightarrow>
          if numeric_numbers = [] then Inr ([], [], [], [])
          else
            let freq = sort_values_desc (value_counts numeric_numbers);
                most_common = map fst (take (min 4 (length freq)) freq);
                least_common = map fst (drop (length freq - min 2 (length freq)) freq)
            in Inr (freq, most_common, least_common, numeric_numbers))"

section \<open>The probability calculator\<close>

text \<open>
  The second parameter of the source, \<^verbatim>\<open>total_possible_numbers\<close>, is never read. The
  sum of the counts is integer arithmetic; the division of the int series by it and the
  multiplication by 100 are float operations on the converted counts.
\<close>

definition calculate_probabilities ::
  "float_ops \<Rightarrow> (int \<times> int) list \<Rightarrow> int \<Rightarrow> (int \<times> real) list" where
  "calculate_probabilities F frequencies total_possible_numbers =
     (if frequencies = [] then []
      else
        let total_draws_count = sum_list (map snd frequencies)
        in if total_draws_count = 0 then []
           else sort_values_desc
                  (map (\<lambda>kv. (fst kv,
                               f_mul F (f_div F (f_of_int F (snd kv)) (f_of_int F total_draws_count)) 100))
                     frequencies))"

section \<open>The delay analyzer\<close>

text \<open>The elementwise \<^verbatim>\<open>==\<close> of a column with a Python int.\<close>

fun cell_eq :: "cell \<Rightarrow> int \<Rightarrow> bool" where
  "cell_eq (IntC i) num = (i = num)"
| "cell_eq (FloatC x) num = (x = real_of_int num)"
| "cell_eq (InfC s) num = False"
| "cell_eq NaC num = False"
| "cell_eq (ObjC s) num = False"

fun is_obj :: "cell \<Rightarrow> bool" where
  "is_obj (ObjC s) = True"
| "is_obj c = False"

fun is_int :: "cell \<Rightarrow> bool" where
  "is_int (IntC i) = True"
| "is_int c = False"

fun cell_int :: "cell \<Rightarrow> int" where
  "cell_int (IntC i) = i"
| "cell_int c = 0"

text \<open>The float value of a cell of a numeric column; an int is converted.\<close>

fun cell_fval :: "float_ops \<Rightarrow> cell \<Rightarrow> fval" where
  "cell_fval F (IntC i) = Fin (f_of_int F i)"
| "cell_fval F (FloatC x) = Fin x"
| "cell_fval F (InfC s) = Infty s"
| "cell_fval F NaC = NaN"
| "cell_fval F (ObjC s) = NaN"

text \<open>The larger of two float values; NaN is skipped.\<close>

fun x_max :: "fval \<Rightarrow> fval \<Rightarrow> fval" where
  "x_max NaN v = v"
| "x_max v NaN = v"
| "x_max (Infty True) v = Infty True"
| "x_max v (Infty True) = Infty True"
| "x_max (Infty False) v = v"
| "x_max v (Infty False) = v"
| "x_max (Fin x) (Fin y) = Fin (max x y)"

text \<open>
  The difference of two float values: an infinity absorbs a finite value, two equal
  infinities leave NaN, and NaN stays NaN.
\<close>

fun x_sub :: "float_ops \<Rightarrow> fval \<Rightarrow> fval \<Rightarrow> fval" where
  "x_sub F NaN v = NaN"
| "x_sub F v NaN = NaN"
| "x_sub F (Fin x) (Fin y) = Fin (f_sub F x y)"
| "x_sub F (Infty s) (Fin y) = Infty s"
| "x_sub F (Fin x) (Infty t) = Infty (\<not> t)"
| "x_sub F (Infty s) (Infty t) = (if s = t then NaN else Infty s)"

text \<open>
  \<^verbatim>\<open>column.max()\<close> skips missing values; with no value left the result is NaN. The
  maximum of a column of ints is an int, that of a column of text is a text (which text
  plays no part), and a column that mixes numbers and text does not compare: TypeError.
  Any other column is a float column.
\<close>

datatype maxval = MInt int | MFloat fval | MText

definition col_max :: "float_ops \<Rightarrow> cell list \<Rightarrow> error + maxval" where
  "col_max F col =
     (let vals = dropna col
      in if vals = [] then Inr (MFloat NaN)
         else if list_all is_obj vals then Inr MText
         else if list_ex is_obj vals then Inl TypeError
         else if list_all is_int vals
           then Inr (MInt (fold max (map cell_int vals) (cell_int (hd vals))))
           else Inr (MFloat (fold x_max (map (cell_fval F) vals) (cell_fval F (hd vals)))))"

text \<open>
  \<^verbatim>\<open>int(last_concurso - last_appearance_concurso)\<close>: the difference of two ints is an int;
  text does not subtract (TypeError); the difference of floats is truncated, and
  \<^verbatim>\<open>int\<close> raises OverflowError on an infinite and ValueError on a NaN difference.
\<close>

fun maxval_fval :: "float_ops \<Rightarrow> maxval \<Rightarrow> fval" where
  "maxval_fval F (MInt i) = Fin (f_of_int F i)"
| "maxval_fval F (MFloat v) = v"
| "maxval_fval F MText = NaN"

fun py_delay :: "float_ops \<Rightarrow> maxval \<Rightarrow> maxval \<Rightarrow> error + int" where
  "py_delay F (MInt l) (MInt a) = Inr (l - a)"
| "py_delay F MText a = Inl TypeError"
| "py_delay F l MText = Inl TypeError"
| "py_delay F l a =
     (case x_sub F (maxval_fval F l) (maxval_fval F a) of
        Fin d \<Rightarrow> Inr (py_trunc d)
      | Infty s \<Rightarrow> Inl OverflowError
      | NaN \<Rightarrow> Inl ValueError)"

text \<open>
  The boolean mask \<^verbatim>\<open>(data['Dezena1'] == num) | ... | (data['Dezena6'] == num)\<close>, one
  entry per row; all six columns are read.
\<close>

definition occurrences_mask :: "dataframe \<Rightarrow> int \<Rightarrow> error + bool list" where
  "occurrences_mask data num =
     (case get_cols data dezena_cols of
        Inl e \<Rightarrow> Inl e
      | Inr cols \<Rightarrow> Inr (map (\<lambda>i. list_ex (\<lambda>col. cell_eq (col ! i) num) cols) [0..<df_rows data]))"

text \<open>The loop over \<^verbatim>\<open>selected_numbers\<close>. \<open>delays\<close> is the dictionary built so far.\<close>

fun delays_loop ::
  "float_ops \<Rightarrow> dataframe \<Rightarrow> cell list \<Rightarrow> maxval \<Rightarrow> int list \<Rightarrow> (int \<rightharpoonup> int) \<Rightarrow>
     error + (int \<rightharpoonup> int)" where
  "delays_loop F data conc last_concurso [] delays = Inr delays"
| "delays_loop F data conc last_concurso (num # rest) delays =
     (case occurrences_mask data num of
        Inl e \<Rightarrow> Inl e
      | Inr occ_mask \<Rightarrow>
          let num_occurrences = map fst (filter snd (zip conc occ_mask))
          in if num_occurrences \<noteq> [] then
               (case col_max F num_occurrences of
                  Inl e \<Rightarrow> Inl e
                | Inr last_appearance_concurso \<Rightarrow>
                    (case py_delay F last_concurso last_appearance_concurso of
                       Inl e \<Rightarrow> Inl e
                     | Inr delay \<Rightarrow>
                         delays_loop F data conc last_concurso rest (delays(num \<mapsto> delay))))
             else delays_loop F data conc last_concurso rest (delays(num \<mapsto> - 1)))"

definition analyze_delays :: "float_ops \<Rightarrow> dataframe \<Rightarrow> int list \<Rightarrow> error + (int \<rightharpoonup> int)" where
  "analyze_delays F data selected_numbers =
     (if df_empty data \<or> selected_numbers = [] then Inr Map.empty
      else
        (case get_col data ''Concurso'' of
           Inl e \<Rightarrow> Inl e
         | Inr conc \<Rightarrow>
             (case col_max F conc of
                Inl e \<Rightarrow> Inl e
              | Inr last_concurso \<Rightarrow>
                  delays_loop F data conc last_concurso selected_numbers Map.empty)))"

text \<open>
  The delay as the specification words it, on the records: the largest draw number of
  the history minus the largest draw number among the records that contain \<open>n\<close>, or
  \<open>-1\<close> when no record contains it.
\<close>

definition spec_delay :: "draw_record list \<Rightarrow> int \<Rightarrow> int" where
  "spec_delay history n =
     (let containing = filter (\<lambda>r. n \<in> set (dezenas r)) history
      in if containing = [] then - 1
         else Max (set (map concurso history)) - Max (set (map concurso containing)))"

section \<open>The pattern analyzer\<close>

text \<open>
  \<^verbatim>\<open>round(x, 2)\<close> on a numpy float: the float is multiplied by 100, rounded to the
  nearest integer (a tie going to the even one) and divided by 100.
\<close>

definition py_round2 :: "float_ops \<Rightarrow> real \<Rightarrow> real" where
  "py_round2 F x = f_div F (real_of_int (round_half_even (f_mul F x 100))) 100"

fun x_round2 :: "float_ops \<Rightarrow> fval \<Rightarrow> fval" where
  "x_round2 F (Fin x) = Fin (py_round2 F x)"
| "x_round2 F v = v"

text \<open>
  The sum of float values, missing ones left out: infinities of both signs leave NaN,
  an infinity absorbs the finite values, and finite values are added by numpy.
\<close>

definition x_sum :: "numpy_ops \<Rightarrow> fval list \<Rightarrow> fval" where
  "x_sum N vs =
     (if Infty True \<in> set vs \<and> Infty False \<in> set vs then NaN
      else if Infty True \<in> set vs then Infty True
      else if Infty False \<in> set vs then Infty False
      else Fin (np_sum N (List.map_filter (\<lambda>v. case v of Fin x \<Rightarrow> Some x | _ \<Rightarrow> None) vs)))"

fun fval_cell :: "fval \<Rightarrow> cell" where
  "fval_cell (Fin x) = FloatC x"
| "fval_cell (Infty s) = InfC s"
| "fval_cell NaN = NaC"

text \<open>
  One entry of \<^verbatim>\<open>data[[...]].sum(axis=1)\<close>: the sum of the numeric cells of a row, a
  missing value counting as 0. Text in a row is a TypeError. The sum of six ints is an
  int, any other sum a float.
\<close>

definition row_sum :: "float_ops \<Rightarrow> numpy_ops \<Rightarrow> cell list \<Rightarrow> error + cell" where
  "row_sum F N row_cells =
     (if list_ex is_obj row_cells then Inl TypeError
      else if list_all is_int row_cells
        then Inr (IntC (sum_list (map cell_int row_cells)))
        else Inr (fval_cell (x_sum N (map (cell_fval F) (dropna row_cells)))))"

fun row_sums :: "float_ops \<Rightarrow> numpy_ops \<Rightarrow> cell list list \<Rightarrow> error + cell list" where
  "row_sums F N [] = Inr []"
| "row_sums F N (r # rs) =
     (case row_sum F N r of
        Inl e \<Rightarrow> Inl e
      | Inr s \<Rightarrow> (case row_sums F N rs of Inl e \<Rightarrow> Inl e | Inr ss \<Rightarrow> Inr (s # ss)))"

text \<open>
  \<^verbatim>\<open>column.mean()\<close>: the float sum of the values that are not missing, divided by
  their number; NaN when none is left.
\<close>

definition col_mean :: "float_ops \<Rightarrow> numpy_ops \<Rightarrow> cell list \<Rightarrow> fval" where
  "col_mean F N col =
     (let vals = dropna col
      in if vals = [] then NaN
         else (case x_sum N (map (cell_fval F) vals) of
                 Fin s \<Rightarrow> Fin (f_div F s (f_of_int F (int (length vals))))
               | v \<Rightarrow> v))"

text \<open>\<^verbatim>\<open>num % 2 == 0\<close>; the remainder of an infinity or of NaN is NaN, which is not 0.\<close>

fun is_even_cell :: "cell \<Rightarrow> bool" where
  "is_even_cell (IntC i) = even i"
| "is_even_cell (FloatC x) = (x / 2 = real_of_int \<lfloor>x / 2\<rfloor>)"
| "is_even_cell (InfC s) = False"
| "is_even_cell NaC = False"
| "is_even_cell (ObjC s) = False"

text \<open>The rows of the six Dezena columns.\<close>

definition rows_of :: "nat \<Rightarrow> cell list list \<Rightarrow> cell list list" where
  "rows_of n cols = map (\<lambda>i. map (\<lambda>col. col ! i) cols) [0..<n]"

text \<open>
  The label of a split, built by the f-string of the source: the even count, the text
  \<^verbatim>\<open> Pares / \<close>, the odd count, a space, and the word for odd numbers, whose first letter
  is a capital I with acute accent, the code point 205. Both counts lie in 0..6 and print as
  one digit.
\<close>

definition digit_str :: "int \<Rightarrow> string" where
  "digit_str k = [char_of (48 + k)]"

definition split_label :: "int \<times> int \<Rightarrow> string" where
  "split_label k =
     digit_str (fst k) @ '' Pares / '' @ digit_str (snd k) @ '' '' @ [char_of (205::nat)] @ ''mpares''"

text \<open>\<^verbatim>\<open>collections.Counter\<close>: every distinct key with its count, in order of first arrival.\<close>

definition counter :: "'a list \<Rightarrow> ('a \<times> nat) list" where
  "counter xs = map (\<lambda>k. (k, count_list xs k)) (unique xs)"

text \<open>
  \<^verbatim>\<open>analyze_drawing_patterns\<close> returns the two dictionaries, and with them the frame
  as the call leaves it: the assignment to \<^verbatim>\<open>data['SomaDezenas']\<close> writes into the
  frame it was given.
\<close>

definition analyze_drawing_patterns ::
  "float_ops \<Rightarrow> numpy_ops \<Rightarrow> dataframe \<Rightarrow>
     error + (((string \<times> fval) list \<times> (string \<times> nat) list) \<times> dataframe)" where
  "analyze_drawing_patterns F N data =
     (if df_empty data then Inr (([], []), data)
      else
        (case get_cols data dezena_cols of
           Inl e \<Rightarrow> Inl e
         | Inr cols \<Rightarrow>
             (case row_sums F N (rows_of (df_rows data) cols) of
                Inl e \<Rightarrow> Inl e
              | Inr soma \<Rightarrow>
                  let data' = set_col data ''SomaDezenas'' soma;
                      avg_sum = col_mean F N soma;
                      even_counts =
                        map (\<lambda>row_cells. int (length (filter is_even_cell row_cells)))
                          (rows_of (df_rows data) cols);
                      odd_counts = map (\<lambda>even_count. 6 - even_count) even_counts;
                      even_odd_distribution =
                        map (\<lambda>kv. (split_label (fst kv), snd kv)) (counter (zip even_counts odd_counts))
                  in Inr (([(''average_sum'', x_round2 F avg_sum)], even_odd_distribution), data'))))"

section \<open>The outlier detector\<close>

text \<open>
  \<^verbatim>\<open>np.convolve(a, v, 'same')\<close> swaps its arguments when \<open>v\<close> is the longer and refuses an
  empty one; the convolution itself is numpy's.
\<close>

definition np_convolve_same :: "numpy_ops \<Rightarrow> real list \<Rightarrow> real list \<Rightarrow> error + real list" where
  "np_convolve_same N a v =
     (let a' = (if length a < length v then v else a);
          v' = (if length a < length v then a else v)
      in if a' = [] \<or> v' = [] then Inl ValueError
         else Inr (np_correlate_same N a' v'))"

text \<open>
  \<^verbatim>\<open>moving_average\<close>: the window is \<^verbatim>\<open>np.ones(int(window_size)) / float(window_size)\<close>,
  each weight the float quotient of 1 by the window size.
\<close>

definition moving_average ::
  "float_ops \<Rightarrow> numpy_ops \<Rightarrow> real list \<Rightarrow> int \<Rightarrow> error + real list" where
  "moving_average F N data window_size =
     (if window_size \<le> 0 then Inr (replicate (length data) 0)
      else np_convolve_same N data
             (replicate (nat window_size) (f_div F 1 (f_of_int F window_size))))"

text \<open>
  \<^verbatim>\<open>explain_anomalies\<close> is local to \<^verbatim>\<open>analyze_outliers\<close> and reads its \<open>frequencies\<close>.
  The residual, the two thresholds and their comparison with \<open>y_i\<close> are float
  operations. The anomalies are an ordered dictionary: a new key goes to the end, a key
  that is there keeps its place.
\<close>

definition explain_anomalies ::
  "float_ops \<Rightarrow> numpy_ops \<Rightarrow> (int \<times> int) list \<Rightarrow> real list \<Rightarrow> int \<Rightarrow> real \<Rightarrow>
     error + (real \<times> (int \<times> real) list)" where
  "explain_anomalies F N frequencies y window_size sigma =
     (if int (length y) < window_size then Inr (0, [])
      else
        (case moving_average F N y window_size of
           Inl e \<Rightarrow> Inl e
         | Inr avg \<Rightarrow>
             let residual = map2 (f_sub F) y avg;
                 std = np_std N residual;
                 anomalies =
                   fold (\<lambda>(i, y_i, avg_i) anomalies.
                           if y_i > f_add F avg_i (f_mul F sigma std) \<or>
                              y_i < f_sub F avg_i (f_mul F sigma std)
                           then (if i < length frequencies
                                 then AList.update (fst (frequencies ! i)) y_i anomalies
                                 else anomalies)
                           else anomalies)
                     (enumerate 0 (zip y avg)) []
             in Inr (py_round2 F std, anomalies)))"

definition default_window_size :: "(int \<times> int) list \<Rightarrow> int" where
  "default_window_size frequencies =
     min 10 (if length frequencies > 0 then int (length frequencies) div 2 else 1)"

definition analyze_outliers ::
  "float_ops \<Rightarrow> numpy_ops \<Rightarrow> (int \<times> int) list \<Rightarrow> error + (int list \<times> real)" where
  "analyze_outliers F N frequencies =
     (if frequencies = [] then Inr ([], 0)
      else
        let y = map (\<lambda>kv. f_of_int F (snd kv)) frequencies;
            window_size = default_window_size frequencies;
            sigma_value = 3 / 2
        in (case explain_anomalies F N frequencies y window_size sigma_value of
              Inl e \<Rightarrow> Inl e
            | Inr events \<Rightarrow> Inr (map fst (snd events), fst events)))"

text \<open>
  The centered moving average as the specification words it, in exact arithmetic: entry
  \<open>i\<close> is the sum of the values in the window from \<open>i - w div 2\<close> to \<open>i + (w - 1) div 2\<close>
  that lie inside the sequence, divided by \<open>w\<close>; the part of a window beyond an edge
  counts as zeros.
\<close>

definition spec_moving_average :: "real list \<Rightarrow> nat \<Rightarrow> real list" where
  "spec_moving_average y w =
     map (\<lambda>i. (\<Sum>j\<leftarrow>[0..<length y].
                 if int i - int (w div 2) \<le> int j \<and> j \<le> i + (w - 1) div 2 then y ! j else 0) / real w)
       [0..<length y]"


section \<open>Histories to run the analyzers on\<close>

text \<open>
  The scenario of the specification: draws 1, 2 and 3 with the numbers 1 to 6, then
  1 to 5 and 7, then 10, 20, 30, 40, 50 and 60.
\<close>

definition scenario_history :: "draw_record list" where
  "scenario_history =
     [\<lparr>concurso = 1, data_sorteio = ''01/01/2024'', dezenas = [1, 2, 3, 4, 5, 6]\<rparr>,
      \<lparr>concurso = 2, data_sorteio = ''04/01/2024'', dezenas = [1, 2, 3, 4, 5, 7]\<rparr>,
      \<lparr>concurso = 3, data_sorteio = ''06/01/2024'', dezenas = [10, 20, 30, 40, 50, 60]\<rparr>]"

text \<open>
  A frame with malformed entries: 0 and 61, a missing value, text, and the floats 1.5,
  0.5 and 60.5.
\<close>

definition malformed_frame :: dataframe where
  "malformed_frame =
     \<lparr> df_rows = 2,
       df_columns =
         [(''Concurso'', [IntC 1, IntC 2]),
          (''Data'', [ObjC ''01/01/2024'', ObjC ''04/01/2024'']),
          (''Dezena1'', [IntC 4, IntC 0]),
          (''Dezena2'', [IntC 8, IntC 61]),
          (''Dezena3'', [IntC 15, NaC]),
          (''Dezena4'', [IntC 16, ObjC ''x'']),
          (''Dezena5'', [IntC 23, FloatC (3 / 2)]),
          (''Dezena6'', [FloatC (121 / 2), FloatC (1 / 2)])] \<rparr>"

text \<open>A frame of one draw whose sixth number is an infinite float.\<close>

definition infinite_frame :: dataframe where
  "infinite_frame =
     \<lparr> df_rows = 1,
       df_columns =
         [(''Concurso'', [IntC 1]),
          (''Data'', [ObjC ''01/01/2024'']),
          (''Dezena1'', [IntC 4]),
          (''Dezena2'', [IntC 8]),
          (''Dezena3'', [IntC 15]),
          (''Dezena4'', [IntC 16]),
          (''Dezena5'', [IntC 23]),
          (''Dezena6'', [InfC True])] \<rparr>"

text \<open>A frame of one draw whose draw number is text.\<close>

definition text_frame :: dataframe where
  "text_frame =
     \<lparr> df_rows = 1,
       df_columns =
         [(''Concurso'', [ObjC ''x'']),
          (''Data'', [ObjC ''01/01/2024'']),
          (''Dezena1'', [IntC 4]),
          (''Dezena2'', [IntC 8]),
          (''Dezena3'', [IntC 15]),
          (''Dezena4'', [IntC 16]),
          (''Dezena5'', [IntC 23]),
          (''Dezena6'', [IntC 42])] \<rparr>"

section \<open>Evaluating the binary64 rounding\<close>

text \<open>
  With the exponent \<open>e\<close> of \<open>x\<close> known, \<open>fl x\<close> is computed without the logarithm.
\<close>

lemma pow2_pos: "0 < pow2 e"
  by (simp add: pow2_def)

lemma pow2_powr: "2 powr real_of_int e = pow2 e"
  by (simp add: pow2_def powr_real_of_int inverse_eq_divide)

lemma fl_eval:
  assumes "pow2 e \<le> \<bar>x\<bar>" and "\<bar>x\<bar> < pow2 (e + 1)"
  shows "fl x = sgn x * real_of_int (round_half_even (\<bar>x\<bar> / pow2 (e - 52))) * pow2 (e - 52)"
proof -
  have pos: "0 < \<bar>x\<bar>" using assms(1) pow2_pos[of e] by linarith
  then have nz: "x \<noteq> 0" by auto
  have "real_of_int e \<le> log 2 \<bar>x\<bar>"
    using assms(1) pos by (simp add: le_log_iff pow2_powr)
  moreover have "log 2 \<bar>x\<bar> < real_of_int e + 1"
  proof -
    have "\<bar>x\<bar> < 2 powr (real_of_int (e + 1))" using assms(2) by (simp only: pow2_powr)
    then have "log 2 \<bar>x\<bar> < real_of_int (e + 1)" using pos by (simp add: log_less_iff)
    then show ?thesis by simp
  qed
  ultimately have "\<lfloor>log 2 \<bar>x\<bar>\<rfloor> = e" by (rule floor_unique)
  then show ?thesis using nz by (simp add: fl_def Let_def)
qed

lemma fl_0: "fl 0 = 0"
  by (simp add: fl_def)

lemma fl_1: "fl 1 = 1"
proof -
  have "fl 1 = sgn 1 * real_of_int (round_half_even (\<bar>1\<bar> / pow2 (0 - 52))) * pow2 (0 - 52)"
    by (rule fl_eval) (simp_all add: pow2_def)
  then show ?thesis by (simp add: pow2_def round_half_even_def)
qed


lemma fl_3: "fl 3 = 3"
proof -
  have "fl 3 = sgn 3 * real_of_int (round_half_even (\<bar>3\<bar> / pow2 (1 - 52))) * pow2 (1 - 52)"
    by (rule fl_eval) (simp_all add: pow2_def)
  then show ?thesis by (simp add: pow2_def round_half_even_def)
qed








section \<open>Properties of the suggestion engine\<close>

lemma add_most_common_inv:
  "finite s \<Longrightarrow> int (card s) \<le> n \<Longrightarrow>
   finite (add_most_common s xs n) \<and> int (card (add_most_common s xs n)) \<le> n \<and>
   s \<subseteq> add_most_common s xs n \<and> add_most_common s xs n \<subseteq> s \<union> set xs"
proof (induction xs arbitrary: s)
  case Nil
  then show ?case by simp
next
  case (Cons x xs)
  show ?case
  proof (cases "int (card s) < n")
    case True
    have c: "int (card (insert x s)) \<le> n"
      using True Cons.prems(1) by (simp add: card_insert_if)
    have f: "finite (insert x s)" using Cons.prems(1) by simp
    from Cons.IH[OF f c] True show ?thesis by auto
  next
    case False
    then show ?thesis using Cons.prems by auto
  qed
qed

lemma add_least_common_inv:
  "finite s \<Longrightarrow> int (card s) \<le> n \<Longrightarrow>
   finite (add_least_common s xs n) \<and> int (card (add_least_common s xs n)) \<le> n \<and>
   s \<subseteq> add_least_common s xs n \<and> add_least_common s xs n \<subseteq> s \<union> set xs"
proof (induction xs arbitrary: s)
  case Nil
  then show ?case by simp
next
  case (Cons x xs)
  show ?case
  proof (cases "int (card s) < n \<and> x \<notin> s")
    case True
    have c: "int (card (insert x s)) \<le> n"
      using True Cons.prems(1) by (simp add: card_insert_if)
    have f: "finite (insert x s)" using Cons.prems(1) by simp
    from Cons.IH[OF f c] True show ?thesis by auto
  next
    case False
    then show ?thesis using Cons.prems by auto
  qed
qed

lemma fill_random_inv:
  "finite s \<Longrightarrow> int (card s) \<le> n \<Longrightarrow> distinct av \<Longrightarrow> set av \<inter> s = {} \<Longrightarrow>
   finite (fill_random s av n) \<and>
   int (card (fill_random s av n)) = min n (int (card s) + int (length av)) \<and>
   s \<subseteq> fill_random s av n \<and> fill_random s av n \<subseteq> s \<union> set av"
proof (induction av arbitrary: s)
  case Nil
  then show ?case by simp
next
  case (Cons a av)
  show ?case
  proof (cases "int (card s) < n")
    case True
    have a: "a \<notin> s" using Cons.prems(4) by auto
    have c: "card (insert a s) = Suc (card s)" using a Cons.prems(1) by simp
    have c': "int (card (insert a s)) \<le> n" using c True by simp
    have f: "finite (insert a s)" using Cons.prems(1) by simp
    have d: "distinct av" "set av \<inter> insert a s = {}" using Cons.prems(3,4) by auto
    from Cons.IH[OF f c' d] True c show ?thesis by auto
  next
    case False
    then show ?thesis using Cons.prems by auto
  qed
qed


lemma shuffle_props:
  assumes "random_contract R"
  shows "set (fst (rnd_shuffle R g xs)) = set xs"
    and "distinct (fst (rnd_shuffle R g xs)) = distinct xs"
    and "length (fst (rnd_shuffle R g xs)) = length xs"
proof -
  have m: "mset (fst (rnd_shuffle R g xs)) = mset xs"
    using assms by (simp add: random_contract_def)
  show "set (fst (rnd_shuffle R g xs)) = set xs" using m by (rule mset_eq_setD)
  show "distinct (fst (rnd_shuffle R g xs)) = distinct xs" using m by (rule mset_eq_imp_distinct_iff)
  show "length (fst (rnd_shuffle R g xs)) = length xs" using m by (rule mset_eq_length)
qed

lemma suggested_set_props:
  fixes R :: "'g random_source" and g :: 'g
  assumes R: "random_contract R"
    and most: "set most \<subseteq> {1..60}" and least: "set least \<subseteq> {1..60}" and n: "0 \<le> n"
  defines "s2 \<equiv> add_least_common (add_most_common {} most n) least n"
  defines "av \<equiv> fst (rnd_shuffle R g (sorted_list_of_set (all_possible_numbers - s2)))"
  defines "s \<equiv> fill_random s2 av n"
  shows "finite s" and "s \<subseteq> {1..60}" and "int (card s) = min n 60"
proof -
  let ?s1 = "add_most_common {} most n"
  have i1: "finite ?s1 \<and> int (card ?s1) \<le> n \<and> {} \<subseteq> ?s1 \<and> ?s1 \<subseteq> {} \<union> set most"
    by (rule add_most_common_inv) (use n in simp_all)
  have i2: "finite s2 \<and> int (card s2) \<le> n \<and> ?s1 \<subseteq> s2 \<and> s2 \<subseteq> ?s1 \<union> set least"
    unfolding s2_def by (rule add_least_common_inv) (use i1 in simp_all)
  have sub2: "s2 \<subseteq> {1..60}" using i1 i2 most least by blast
  have fin: "finite (all_possible_numbers - s2)" by (simp add: all_possible_numbers_def)
  have av_set: "set av = all_possible_numbers - s2"
    unfolding av_def using shuffle_props(1)[OF R] fin by simp
  have av_dist: "distinct av"
    unfolding av_def using shuffle_props(2)[OF R] by simp
  have av_len: "length av = card (all_possible_numbers - s2)"
    unfolding av_def using shuffle_props(3)[OF R] by simp
  have "card (all_possible_numbers - s2) = card all_possible_numbers - card s2"
    using sub2 i2 by (intro card_Diff_subset) (auto simp: all_possible_numbers_def)
  moreover have "card s2 \<le> card all_possible_numbers"
    using sub2 by (intro card_mono) (auto simp: all_possible_numbers_def)
  moreover have "card all_possible_numbers = 60" by (simp add: all_possible_numbers_def)
  ultimately have len: "int (card s2) + int (length av) = 60" using av_len by simp
  have i3: "finite s \<and> int (card s) = min n (int (card s2) + int (length av)) \<and>
            s2 \<subseteq> s \<and> s \<subseteq> s2 \<union> set av"
    unfolding s_def by (rule fill_random_inv) (use i2 av_dist av_set in auto)
  show "finite s" using i3 by simp
  show "s \<subseteq> {1..60}" using i3 sub2 av_set by (auto simp: all_possible_numbers_def)
  show "int (card s) = min n 60" using i3 len by simp
qed

lemma demo_source_contract: "random_contract demo_source"
proof -
  have "mset (take k xs) \<subseteq># mset xs" for k and xs :: "int list"
    by (metis append_take_drop_id mset_append mset_subset_eq_add_left)
  then show ?thesis by (simp add: random_contract_def demo_source_def)
qed

text \<open>
  Claim C1. Whatever the random source returns within its contract, for \<open>most_common\<close> and
  \<open>least_common\<close> lists of numbers in 1..60 and a ticket size \<open>0 \<le> n\<close> (so for every
  \<open>6 \<le> n\<close>), \<open>suggest_numbers\<close> returns normally a list that is sorted ascending,
  without repetition and within 1..60. For \<open>n \<le> 60\<close> its length is exactly \<open>n\<close>; for
  \<open>n > 60\<close> the pool is exhausted and the list is shorter than requested. The lists need
  not be duplicate-free for this.
\<close>

theorem suggest_numbers_ok:
  assumes R: "random_contract R"
    and most: "set most_common \<subseteq> {1..60}" and least: "set least_common \<subseteq> {1..60}"
    and n: "0 \<le> n"
  shows "\<exists>ys g'. suggest_numbers R g most_common least_common n = Inr (ys, g') \<and>
           distinct ys \<and> sorted ys \<and> set ys \<subseteq> {1..60} \<and>
           (n \<le> 60 \<longrightarrow> int (length ys) = n) \<and> (60 < n \<longrightarrow> int (length ys) < n)"
proof -
  define s2 where "s2 = add_least_common (add_most_common {} most_common n) least_common n"
  define sh where "sh = rnd_shuffle R g (sorted_list_of_set (all_possible_numbers - s2))"
  define s where "s = fill_random s2 (fst sh) n"
  define final where "final = sorted_list_of_set s"
  have fin: "finite s" and sub: "s \<subseteq> {1..60}" and card: "int (card s) = min n 60"
    unfolding s_def sh_def s2_def using suggested_set_props[OF R most least n, of g] by simp_all
  have f1: "distinct final" "sorted final" "set final = s" "length final = card s"
    unfolding final_def using fin by simp_all
  show ?thesis
  proof (cases "n \<le> 60")
    case True
    then have len: "int (length final) = n" using f1(4) card by simp
    have "suggest_numbers R g most_common least_common n = Inr (final, snd sh)"
      using len f1(4) unfolding suggest_numbers_def Let_def
      by (simp add: s2_def[symmetric] sh_def[symmetric] s_def[symmetric] final_def[symmetric]
            case_prod_beta)
    then show ?thesis using f1 sub len True by simp
  next
    case False
    then have len: "int (length final) = 60" using f1(4) card by simp
    have "card s = card {1..60::int}" using card False by simp
    then have full: "s = {1..60}" using sub by (intro card_subset_eq) simp_all
    define sh2 where "sh2 = rnd_shuffle R (snd sh) (sorted_list_of_set (all_possible_numbers - s))"
    have "length (fst sh2) = 0"
      unfolding sh2_def using shuffle_props(3)[OF R] full by (simp add: all_possible_numbers_def)
    then have e2: "fst sh2 = []" by simp
    define sm where "sm = rnd_sample R (snd sh2) [] 0"
    have "length (fst sm) = 0"
      using R unfolding sm_def random_contract_def by (metis le_zero_eq list.size(3))
    then have e3: "fst sm = []" by simp
    have "suggest_numbers R g most_common least_common n = Inr (final, snd sm)"
      using len False e2 e3 f1(1,2,4) unfolding suggest_numbers_def Let_def
      by (simp add: s2_def[symmetric] sh_def[symmetric] s_def[symmetric] final_def[symmetric]
            sh2_def[symmetric] case_prod_beta py_sample_def sm_def[symmetric]
            sorted_sort_id)
    then show ?thesis using f1 sub len False by simp
  qed
qed


theorem suggest_numbers_ok_witness:
  "random_contract demo_source \<and> set [10, 5, 33, 42] \<subseteq> {1..60::int} \<and> set [7, 58] \<subseteq> {1..60::int} \<and>
   (0::int) \<le> 6 \<and>
   (\<exists>ys g'. suggest_numbers demo_source 0 [10, 5, 33, 42] [7, 58] 6 = Inr (ys, g') \<and>
           distinct ys \<and> sorted ys \<and> set ys \<subseteq> {1..60} \<and>
           ((6::int) \<le> 60 \<longrightarrow> int (length ys) = 6) \<and> (60 < (6::int) \<longrightarrow> int (length ys) < 6))"
  using suggest_numbers_ok[of demo_source "[10, 5, 33, 42]" "[7, 58]" 6 0] demo_source_contract
  by simp

text \<open>The engine run on the demonstration source, also beyond 60 and below 0.\<close>

lemma suggest_numbers_run_hot_cold:
  "suggest_numbers demo_source 0 [10, 5, 33, 42] [7, 58] 6 = Inr ([5, 7, 10, 33, 42, 58], 1)"
  by code_simp

lemma suggest_numbers_run_empty:
  "suggest_numbers demo_source 0 [] [] 6 = Inr ([55, 56, 57, 58, 59, 60], 1)"
  by code_simp

lemma suggest_numbers_run_61:
  "suggest_numbers demo_source 0 [10, 5, 33, 42] [7, 58] 61 = Inr ([1..60], 3)"
  by code_simp

lemma suggest_numbers_run_negative:
  "suggest_numbers demo_source 0 [1, 2, 3, 4] [4, 5] (- 1) = Inl ValueError"
  by code_simp


text \<open>
  Claim C6. The claim says that a number of \<open>least_common\<close> already in the set is skipped
  and the numbers after it are still considered. In the code the membership test shares
  the \<^verbatim>\<open>else: break\<close> of the size test, so the first duplicate ends the loop: with
  hot numbers 1, 2, 3, 4 and cold numbers 4, 5 the loop stops at 4 and never looks at 5,
  where the loop of the specification adds 5; the ticket is then filled from the random
  source and 5 is not in it.
\<close>

theorem add_least_common_stops_at_duplicate:
  "add_least_common (add_most_common {} [1, 2, 3, 4] 6) [4, 5] 6 = {1, 2, 3, 4} \<and>
   spec_add_least_common (add_most_common {} [1, 2, 3, 4] 6) [4, 5] 6 = {1, 2, 3, 4, 5} \<and>
   suggest_numbers demo_source 0 [1, 2, 3, 4] [4, 5] 6 = Inr ([1, 2, 3, 4, 59, 60], 1)"
  by code_simp

section \<open>Properties of the frequency analyzer\<close>

lemma mset_sort_values_desc: "mset (sort_values_desc xs) = mset xs"
  by (simp add: sort_values_desc_def)

lemma set_sort_values_desc: "set (sort_values_desc xs) = set xs"
  by (simp add: sort_values_desc_def)

lemma length_sort_values_desc: "length (sort_values_desc xs) = length xs"
  by (simp add: sort_values_desc_def)

lemma sum_list_sort_values_desc:
  "sum_list (map snd (sort_values_desc xs)) = sum_list (map snd xs)"
proof -
  have "mset (map snd (sort_values_desc xs)) = mset (map snd xs)"
    by (simp add: mset_sort_values_desc)
  then have "sum_mset (mset (map snd (sort_values_desc xs))) = sum_mset (mset (map snd xs))"
    by (rule arg_cong)
  then show ?thesis by (simp only: sum_mset_sum_list)
qed

lemma set_unique: "set (unique xs) = set xs"
  by (simp add: unique_def)

lemma distinct_unique: "distinct (unique xs)"
  by (simp add: unique_def)

lemma sum_count_unique: "(\<Sum>v\<leftarrow>unique xs. int (count_list xs v)) = int (length xs)"
proof -
  have "(\<Sum>v\<leftarrow>unique xs. count_list xs v) = sum (count_list xs) (set (unique xs))"
    using distinct_unique by (rule sum_list_distinct_conv_sum_set)
  also have "\<dots> = length xs"
    by (simp add: set_unique sum_count_set)
  finally have "(\<Sum>v\<leftarrow>unique xs. count_list xs v) = length xs" .
  then have "int (\<Sum>v\<leftarrow>unique xs. count_list xs v) = int (length xs)" by simp
  moreover have "int (sum_list (map f ys)) = (\<Sum>v\<leftarrow>ys. int (f v))" for f :: "'a \<Rightarrow> nat" and ys
    by (induction ys) simp_all
  ultimately show ?thesis by simp
qed

lemma value_counts_sum: "sum_list (map snd (value_counts xs)) = int (length xs)"
  using sum_count_unique[of xs]
  by (simp add: value_counts_def sum_list_sort_values_desc comp_def)

lemma value_counts_keys: "fst ` set (value_counts xs) = set xs"
  by (simp add: value_counts_def set_sort_values_desc image_image set_unique)

lemma value_counts_distinct: "distinct (map fst (value_counts xs))"
proof -
  have "mset (map fst (value_counts xs)) = mset (unique xs)"
    unfolding value_counts_def mset_map mset_sort_values_desc
    by (simp add: image_mset.compositionality comp_def)
  then show ?thesis using distinct_unique by (metis mset_eq_imp_distinct_iff)
qed


lemma numeric_numbers_of_accepted:
  "NaC \<notin> set xs \<Longrightarrow> \<not> list_ex is_inf xs \<Longrightarrow>
   numeric_numbers_of xs = Inr (List.map_filter accepted xs)"
proof (induction xs)
  case Nil
  show ?case by (simp add: List.map_filter_simps)
next
  case (Cons c xs)
  then have IH: "numeric_numbers_of xs = Inr (List.map_filter accepted xs)" by simp
  from Cons.prems have "c \<noteq> NaC" and "\<not> is_inf c" by auto
  then show ?case using IH by (cases c) (simp_all add: List.map_filter_simps)
qed

lemma numeric_numbers_of_inf:
  "NaC \<notin> set xs \<Longrightarrow> list_ex is_inf xs \<Longrightarrow> numeric_numbers_of xs = Inl OverflowError"
proof (induction xs)
  case Nil
  then show ?case by simp
next
  case (Cons c xs)
  from Cons.prems have c: "c \<noteq> NaC" and n: "NaC \<notin> set xs" by auto
  show ?case
  proof (cases "is_inf c")
    case True
    then show ?thesis by (cases c) simp_all
  next
    case False
    then have "list_ex is_inf xs" using Cons.prems(2) by simp
    then have "numeric_numbers_of xs = Inl OverflowError" using Cons.IH n by simp
    then show ?thesis using c False by (cases c) simp_all
  qed
qed

lemma collect_numbers_no_nan: "NaC \<notin> set (collect_numbers data)"
  by (auto simp: collect_numbers_def dropna_def split: option.splits)

lemma accepted_range: "accepted c = Some v \<Longrightarrow> 1 \<le> v \<and> v \<le> 60"
  by (cases c) (auto split: if_splits)

lemma map_filter_accepted_range: "set (List.map_filter accepted xs) \<subseteq> {1..60}"
  by (auto simp: List.map_filter_def dest: accepted_range)

lemma analyze_numbers_inf:
  "list_ex is_inf (collect_numbers data) \<Longrightarrow> analyze_numbers data = Inl OverflowError"
  by (simp add: analyze_numbers_def numeric_numbers_of_inf[OF collect_numbers_no_nan])

lemma analyze_numbers_eq:
  "\<not> list_ex is_inf (collect_numbers data) \<Longrightarrow>
   analyze_numbers data =
     (let nums = List.map_filter accepted (collect_numbers data);
          freq = sort_values_desc (value_counts nums)
      in if nums = [] then Inr ([], [], [], [])
         else Inr (freq, map fst (take (min 4 (length freq)) freq),
                   map fst (drop (length freq - min 2 (length freq)) freq), nums))"
  by (simp add: analyze_numbers_def numeric_numbers_of_accepted[OF collect_numbers_no_nan] Let_def)

lemma freq_keys: "fst ` set (sort_values_desc (value_counts nums)) = set nums"
  by (simp add: set_sort_values_desc value_counts_keys)

lemma freq_sum: "sum_list (map snd (sort_values_desc (value_counts nums))) = int (length nums)"
  by (simp add: sum_list_sort_values_desc value_counts_sum)

text \<open>
  Claim C10, amended. The frequency analyzer re-validates the Dezena columns. When one of
  them holds an infinite float, \<^verbatim>\<open>int\<close> raises OverflowError and so does the analyzer.
  On every other frame it returns normally: the numbers it counts are the entries that
  are an int in 1..60 or a finite float whose truncation lies in 1..60, the float counted
  as its truncation; missing values, text and all other numbers are dropped. So
  whenever the analyzer returns, every key of the frequency table, and every member of
  the most and least common lists, is an integer in 1..60.
\<close>

theorem analyze_numbers_keys_in_range:
  "(list_ex is_inf (collect_numbers data) \<longrightarrow> analyze_numbers data = Inl OverflowError) \<and>
   (\<not> list_ex is_inf (collect_numbers data) \<longrightarrow>
      (\<exists>freq most_common least_common nums.
         analyze_numbers data = Inr (freq, most_common, least_common, nums) \<and>
         nums = List.map_filter accepted (collect_numbers data) \<and>
         fst ` set freq = set nums \<and> fst ` set freq \<subseteq> {1..60} \<and>
         set most_common \<subseteq> fst ` set freq \<and> set least_common \<subseteq> fst ` set freq))"
proof (intro conjI impI)
  assume "list_ex is_inf (collect_numbers data)"
  then show "analyze_numbers data = Inl OverflowError" by (rule analyze_numbers_inf)
next
  assume fin: "\<not> list_ex is_inf (collect_numbers data)"
  define nums where "nums = List.map_filter accepted (collect_numbers data)"
  define freq where "freq = sort_values_desc (value_counts nums)"
  show "\<exists>freq most_common least_common nums.
         analyze_numbers data = Inr (freq, most_common, least_common, nums) \<and>
         nums = List.map_filter accepted (collect_numbers data) \<and>
         fst ` set freq = set nums \<and> fst ` set freq \<subseteq> {1..60} \<and>
         set most_common \<subseteq> fst ` set freq \<and> set least_common \<subseteq> fst ` set freq"
  proof (cases "nums = []")
    case True
    then have "analyze_numbers data = Inr ([], [], [], [])"
      unfolding nums_def by (simp add: analyze_numbers_eq[OF fin])
    then show ?thesis using True unfolding nums_def by simp
  next
    case False
    have k: "fst ` set freq = set nums" unfolding freq_def by (rule freq_keys)
    have r: "set nums \<subseteq> {1..60}" unfolding nums_def by (rule map_filter_accepted_range)
    have m: "set (map fst (take (min 4 (length freq)) freq)) \<subseteq> fst ` set freq"
      using set_take_subset[of "min 4 (length freq)" freq] by auto
    have l: "set (map fst (drop (length freq - min 2 (length freq)) freq)) \<subseteq> fst ` set freq"
      using set_drop_subset[of "length freq - min 2 (length freq)" freq] by auto
    have "analyze_numbers data =
            Inr (freq, map fst (take (min 4 (length freq)) freq),
                 map fst (drop (length freq - min 2 (length freq)) freq), nums)"
      using False unfolding nums_def freq_def by (simp add: analyze_numbers_eq[OF fin] Let_def)
    then show ?thesis using k r m l nums_def by simp
  qed
qed

lemma frame_of_collect:
  "collect_numbers (frame_of history) =
     concat (map (\<lambda>k. map (\<lambda>r. IntC (dezenas r ! k)) history) [0..<6])"
  by (simp add: collect_numbers_def frame_of_def dezena_cols_def dropna_def upt_rec)

lemma accepted_valid:
  assumes "list_all valid_record history" and "k < 6"
  shows "List.map_filter accepted (map (\<lambda>r. IntC (dezenas r ! k)) history) =
         map (\<lambda>r. dezenas r ! k) history"
  using assms(1)
proof (induction history)
  case Nil
  show ?case by (simp add: List.map_filter_simps)
next
  case (Cons r rs)
  from Cons.prems have "length (dezenas r) = 6" "list_all (\<lambda>n. 1 \<le> n \<and> n \<le> 60) (dezenas r)"
    by (simp_all add: valid_record_def)
  then have "1 \<le> dezenas r ! k \<and> dezenas r ! k \<le> 60"
    using assms(2) by (simp add: list_all_length)
  then show ?case using Cons by (simp add: List.map_filter_simps)
qed

lemma frame_of_no_inf: "\<not> list_ex is_inf (collect_numbers (frame_of history))"
  by (auto simp: frame_of_collect upt_rec list_ex_iff)

lemma map_filter_append: "List.map_filter f (xs @ ys) = List.map_filter f xs @ List.map_filter f ys"
  by (simp add: List.map_filter_def)

lemma valid_history_numbers:
  assumes "list_all valid_record history"
  shows "List.map_filter accepted (collect_numbers (frame_of history)) =
         concat (map (\<lambda>k. map (\<lambda>r. dezenas r ! k) history) [0..<6])"
  using accepted_valid[OF assms]
  by (simp add: frame_of_collect upt_rec map_filter_append)

text \<open>
  Claim C2. For a history whose records each hold exactly six distinct numbers in 1..60,
  the counts of the frequency table of its frame add up to six times the number of
  draws.
\<close>

theorem analyze_numbers_total_count:
  assumes "list_all valid_record history"
  shows "\<exists>freq most_common least_common nums.
           analyze_numbers (frame_of history) = Inr (freq, most_common, least_common, nums) \<and>
           sum_list (map snd freq) = 6 * int (length history)"
proof -
  define nums where "nums = List.map_filter accepted (collect_numbers (frame_of history))"
  have len: "length nums = 6 * length history"
    unfolding nums_def valid_history_numbers[OF assms] by (simp add: upt_rec)
  show ?thesis
  proof (cases "nums = []")
    case True
    then have "analyze_numbers (frame_of history) = Inr ([], [], [], [])"
      unfolding nums_def by (simp add: analyze_numbers_eq[OF frame_of_no_inf])
    moreover have "length history = 0" using len True by simp
    ultimately show ?thesis by simp
  next
    case False
    define freq where "freq = sort_values_desc (value_counts nums)"
    have "analyze_numbers (frame_of history) =
            Inr (freq, map fst (take (min 4 (length freq)) freq),
                 map fst (drop (length freq - min 2 (length freq)) freq), nums)"
      using False unfolding nums_def freq_def by (simp add: analyze_numbers_eq[OF frame_of_no_inf] Let_def)
    moreover have "sum_list (map snd freq) = 6 * int (length history)"
      unfolding freq_def freq_sum using len by simp
    ultimately show ?thesis by blast
  qed
qed


lemma scenario_valid: "list_all valid_record scenario_history"
  by (simp add: scenario_history_def valid_record_def)

theorem analyze_numbers_total_count_witness:
  "list_all valid_record scenario_history \<and>
   (\<exists>freq most_common least_common nums.
       analyze_numbers (frame_of scenario_history) = Inr (freq, most_common, least_common, nums) \<and>
       sum_list (map snd freq) = 6 * int (length scenario_history))"
  using analyze_numbers_total_count[OF scenario_valid] scenario_valid by simp

text \<open>The frequency analyzer run on the scenario: 18 numbers are counted.\<close>

lemma analyze_numbers_run_scenario:
  "analyze_numbers (frame_of scenario_history) =
     Inr ([(1, 2), (2, 2), (3, 2), (4, 2), (5, 2), (10, 1), (20, 1), (30, 1), (40, 1), (50, 1),
           (6, 1), (7, 1), (60, 1)],
          [1, 2, 3, 4], [7, 60],
          [1, 1, 10, 2, 2, 20, 3, 3, 30, 4, 4, 40, 5, 5, 50, 6, 7, 60])"
  by code_simp

theorem analyze_numbers_keys_in_range_witness:
  "\<not> list_ex is_inf (collect_numbers malformed_frame) \<and>
   (\<exists>freq most_common least_common nums.
       analyze_numbers malformed_frame = Inr (freq, most_common, least_common, nums) \<and>
       nums = List.map_filter accepted (collect_numbers malformed_frame) \<and>
       fst ` set freq = set nums \<and> fst ` set freq \<subseteq> {1..60} \<and>
       set most_common \<subseteq> fst ` set freq \<and> set least_common \<subseteq> fst ` set freq) \<and>
   list_ex is_inf (collect_numbers infinite_frame) \<and>
   analyze_numbers infinite_frame = Inl OverflowError"
proof -
  have a: "\<not> list_ex is_inf (collect_numbers malformed_frame)" by code_simp
  have b: "list_ex is_inf (collect_numbers infinite_frame)" by code_simp
  show ?thesis
    using analyze_numbers_keys_in_range[of malformed_frame]
      analyze_numbers_keys_in_range[of infinite_frame] a b
    by blast
qed

text \<open>
  Claim C10 as stated fails: it has every entry outside 1..60 excluded before counting.
  The float 60.5 of the malformed frame lies outside 1..60, yet it is counted, as 60;
  the float 1.5 is counted as 1.
\<close>

theorem analyze_numbers_counts_float_above_60:
  "\<not> (121 / 2 \<le> (60::real)) \<and>
   get_col malformed_frame ''Dezena6'' = Inr [FloatC (121 / 2), FloatC (1 / 2)] \<and>
   analyze_numbers malformed_frame =
     Inr ([(4, 1), (8, 1), (15, 1), (16, 1), (23, 1), (1, 1), (60, 1)],
          [4, 8, 15, 16], [1, 60], [4, 8, 15, 16, 23, 1, 60])"
  by code_simp

section \<open>Properties of the delay analyzer\<close>

lemma frame_of_not_empty: "history \<noteq> [] \<Longrightarrow> \<not> df_empty (frame_of history)"
  by (simp add: df_empty_def frame_of_def)

lemma frame_of_concurso:
  "get_col (frame_of history) ''Concurso'' = Inr (map (\<lambda>r. IntC (concurso r)) history)"
  by (simp add: get_col_def frame_of_def)

lemma frame_of_dezenas:
  "get_cols (frame_of history) dezena_cols =
     Inr (map (\<lambda>k. map (\<lambda>r. IntC (dezenas r ! k)) history) [0..<6])"
  by (simp add: get_col_def frame_of_def dezena_cols_def upt_rec)

lemma col_max_ints:
  assumes "rs \<noteq> []"
  shows "col_max F (map (\<lambda>r. IntC (f r)) rs) = Inr (MInt (Max (set (map f rs))))"
proof -
  let ?vals = "map (\<lambda>r. IntC (f r)) rs"
  obtain r rs' where rs: "rs = r # rs'" using assms by (cases rs) auto
  have dn: "dropna ?vals = ?vals" by (simp add: dropna_def)
  have ne: "?vals \<noteq> []" using assms by simp
  have no: "\<not> list_all is_obj ?vals" "\<not> list_ex is_obj ?vals" "list_all is_int ?vals"
    using assms by (auto simp: list_all_iff list_ex_iff)
  have ci: "map cell_int ?vals = map f rs" by simp
  have "fold max (map f rs) (f r) = Max (set (f r # map f rs))"
    by (rule Max.set_eq_fold[symmetric])
  also have "\<dots> = Max (set (map f rs))" by (simp add: rs insert_absorb)
  finally have m: "fold max (map f rs) (f r) = Max (set (map f rs))" .
  have hd: "cell_int (hd ?vals) = f r" by (simp add: rs)
  show ?thesis
    unfolding col_max_def Let_def dn using ne no by (simp only: ci hd m if_False if_True)
qed

lemma mask_rows:
  "map fst (filter snd (zip (map f xs) (map p xs))) = map f (filter p xs)"
  by (induction xs) simp_all

lemma member_six:
  assumes "length ds = 6"
  shows "list_ex (\<lambda>col. cell_eq col n) (map (\<lambda>k. IntC (ds ! k)) [0..<6]) \<longleftrightarrow> n \<in> set ds"
proof -
  have "n \<in> set ds \<longleftrightarrow> (\<exists>k<6. ds ! k = n)"
    using assms by (simp add: in_set_conv_nth)
  then show ?thesis by (auto simp: list_ex_iff)
qed

lemma frame_of_mask:
  assumes "list_all valid_record history"
  shows "occurrences_mask (frame_of history) n = Inr (map (\<lambda>r. n \<in> set (dezenas r)) history)"
proof -
  have rows: "df_rows (frame_of history) = length history" by (simp add: frame_of_def)
  have "map (\<lambda>i. list_ex (\<lambda>col. cell_eq (col ! i) n)
                 (map (\<lambda>k. map (\<lambda>r. IntC (dezenas r ! k)) history) [0..<6]))
          [0..<length history] = map (\<lambda>r. n \<in> set (dezenas r)) history"
  proof (rule nth_equalityI)
    show "length (map (\<lambda>i. list_ex (\<lambda>col. cell_eq (col ! i) n)
                 (map (\<lambda>k. map (\<lambda>r. IntC (dezenas r ! k)) history) [0..<6]))
          [0..<length history]) = length (map (\<lambda>r. n \<in> set (dezenas r)) history)" by simp
  next
    fix i assume "i < length (map (\<lambda>i. list_ex (\<lambda>col. cell_eq (col ! i) n)
                 (map (\<lambda>k. map (\<lambda>r. IntC (dezenas r ! k)) history) [0..<6]))
          [0..<length history])"
    then have i: "i < length history" by simp
    then have "valid_record (history ! i)" using assms by (simp add: list_all_length)
    then have six: "length (dezenas (history ! i)) = 6" by (simp add: valid_record_def)
    have "list_ex (\<lambda>col. cell_eq (col ! i) n)
             (map (\<lambda>k. map (\<lambda>r. IntC (dezenas r ! k)) history) [0..<6])
          = list_ex (\<lambda>col. cell_eq col n) (map (\<lambda>k. IntC (dezenas (history ! i) ! k)) [0..<6])"
      using i by (simp add: list_ex_iff)
    also have "\<dots> = (n \<in> set (dezenas (history ! i)))" by (rule member_six[OF six])
    finally show "map (\<lambda>i. list_ex (\<lambda>col. cell_eq (col ! i) n)
                 (map (\<lambda>k. map (\<lambda>r. IntC (dezenas r ! k)) history) [0..<6]))
          [0..<length history] ! i = map (\<lambda>r. n \<in> set (dezenas r)) history ! i"
      using i by simp
  qed
  then show ?thesis by (simp add: occurrences_mask_def frame_of_dezenas rows)
qed

lemma delays_loop_frame:
  assumes v: "list_all valid_record history" and ne: "history \<noteq> []"
  shows "delays_loop F (frame_of history) (map (\<lambda>r. IntC (concurso r)) history)
           (MInt (Max (set (map concurso history)))) selected delays
         = Inr (\<lambda>x. if x \<in> set selected then Some (spec_delay history x) else delays x)"
proof (induction selected arbitrary: delays)
  case Nil
  show ?case by simp
next
  case (Cons num rest)
  let ?occ = "filter (\<lambda>r. num \<in> set (dezenas r)) history"
  have occ: "map fst (filter snd (zip (map (\<lambda>r. IntC (concurso r)) history)
                (map (\<lambda>r. num \<in> set (dezenas r)) history))) = map (\<lambda>r. IntC (concurso r)) ?occ"
    by (rule mask_rows)
  show ?case
  proof (cases "?occ = []")
    case True
    then have sd: "spec_delay history num = - 1" by (simp add: spec_delay_def)
    have "delays_loop F (frame_of history) (map (\<lambda>r. IntC (concurso r)) history)
           (MInt (Max (set (map concurso history)))) (num # rest) delays =
          delays_loop F (frame_of history) (map (\<lambda>r. IntC (concurso r)) history)
           (MInt (Max (set (map concurso history)))) rest (delays(num \<mapsto> - 1))"
      using True by (simp add: frame_of_mask[OF v] occ)
    also have "\<dots> = Inr (\<lambda>x. if x \<in> set rest then Some (spec_delay history x)
                             else (delays(num \<mapsto> - 1)) x)"
      by (rule Cons.IH)
    also have "(\<lambda>x. if x \<in> set rest then Some (spec_delay history x) else (delays(num \<mapsto> - 1)) x)
             = (\<lambda>x. if x \<in> set (num # rest) then Some (spec_delay history x) else delays x)"
      using sd by auto
    finally show ?thesis .
  next
    case False
    then have sd: "spec_delay history num =
        Max (set (map concurso history)) - Max (set (map concurso ?occ))"
      by (simp add: spec_delay_def Let_def)
    have cm: "col_max F (map (\<lambda>r. IntC (concurso r)) ?occ) =
        Inr (MInt (Max (set (map concurso ?occ))))"
      by (rule col_max_ints[OF False])
    have "delays_loop F (frame_of history) (map (\<lambda>r. IntC (concurso r)) history)
           (MInt (Max (set (map concurso history)))) (num # rest) delays =
          delays_loop F (frame_of history) (map (\<lambda>r. IntC (concurso r)) history)
           (MInt (Max (set (map concurso history)))) rest
           (delays(num \<mapsto> spec_delay history num))"
      using False by (simp add: frame_of_mask[OF v] occ cm sd del: set_map)
    also have "\<dots> = Inr (\<lambda>x. if x \<in> set rest then Some (spec_delay history x)
                             else (delays(num \<mapsto> spec_delay history num)) x)"
      by (rule Cons.IH)
    also have "(\<lambda>x. if x \<in> set rest then Some (spec_delay history x)
                     else (delays(num \<mapsto> spec_delay history num)) x)
             = (\<lambda>x. if x \<in> set (num # rest) then Some (spec_delay history x) else delays x)"
      by auto
    finally show ?thesis .
  qed
qed

lemma analyze_delays_frame:
  assumes v: "list_all valid_record history" and ne: "history \<noteq> []" and s: "selected \<noteq> []"
  shows "analyze_delays F (frame_of history) selected
         = Inr (\<lambda>x. if x \<in> set selected then Some (spec_delay history x) else None)"
  using ne s
  by (simp add: analyze_delays_def frame_of_not_empty frame_of_concurso col_max_ints
        delays_loop_frame[OF v ne] del: set_map)

lemma spec_delay_latest:
  assumes "\<exists>r \<in> set history. n \<in> set (dezenas r)"
    and "\<forall>r \<in> set history. n \<in> set (dezenas r) \<longrightarrow> concurso r = Max (set (map concurso history))"
  shows "spec_delay history n = 0"
proof -
  let ?occ = "filter (\<lambda>r. n \<in> set (dezenas r)) history"
  have ne: "?occ \<noteq> []" using assms(1) by (simp add: filter_empty_conv)
  have "set (map concurso ?occ) = {Max (set (map concurso history))}"
    using assms by auto
  then have "Max (set (map concurso ?occ)) = Max (set (map concurso history))"
    by (simp del: set_map)
  then show ?thesis using ne by (simp add: spec_delay_def Let_def del: set_map)
qed

text \<open>
  Claim C3. For a non-empty history of valid records and every number \<open>n\<close> among the
  selected numbers, whatever its size (and whatever the float arithmetic: the draw
  numbers are ints), the delay analyzer returns normally a table whose
  keys are the selected numbers and in which \<open>n\<close> has the largest draw number of the
  history minus the largest draw number of the records that contain \<open>n\<close>, or \<open>-1\<close> when
  no record contains it. A number found only in draws that carry the largest draw number
  has delay 0.
\<close>

theorem analyze_delays_ok:
  assumes "list_all valid_record history" and "history \<noteq> []" and "n \<in> set selected_numbers"
  shows "\<exists>delays. analyze_delays F (frame_of history) selected_numbers = Inr delays \<and>
           dom delays = set selected_numbers \<and>
           delays n =
             Some (if \<exists>r \<in> set history. n \<in> set (dezenas r)
                   then Max (set (map concurso history)) -
                        Max (set (map concurso (filter (\<lambda>r. n \<in> set (dezenas r)) history)))
                   else - 1) \<and>
           ((\<exists>r \<in> set history. n \<in> set (dezenas r)) \<and>
            (\<forall>r \<in> set history. n \<in> set (dezenas r) \<longrightarrow>
                 concurso r = Max (set (map concurso history))) \<longrightarrow> delays n = Some 0)"
proof -
  have s: "selected_numbers \<noteq> []" using assms(3) by auto
  define delays where
    "delays = (\<lambda>x. if x \<in> set selected_numbers then Some (spec_delay history x) else None)"
  have a: "analyze_delays F (frame_of history) selected_numbers = Inr delays"
    unfolding delays_def by (rule analyze_delays_frame[OF assms(1,2) s])
  have d: "dom delays = set selected_numbers"
    by (auto simp: delays_def dom_def)
  have n: "delays n = Some (spec_delay history n)" using assms(3) by (simp add: delays_def)
  have e: "spec_delay history n =
             (if \<exists>r \<in> set history. n \<in> set (dezenas r)
              then Max (set (map concurso history)) -
                   Max (set (map concurso (filter (\<lambda>r. n \<in> set (dezenas r)) history)))
              else - 1)"
    by (auto simp: spec_delay_def Let_def filter_empty_conv simp del: set_map)
  have z: "(\<exists>r \<in> set history. n \<in> set (dezenas r)) \<and>
            (\<forall>r \<in> set history. n \<in> set (dezenas r) \<longrightarrow>
                 concurso r = Max (set (map concurso history))) \<longrightarrow> delays n = Some 0"
    using spec_delay_latest[of history n] n by auto
  show ?thesis using a d n e z by (intro exI[of _ delays]) (simp del: set_map)
qed

lemma scenario_nonempty: "scenario_history \<noteq> []"
  by (simp add: scenario_history_def)

theorem analyze_delays_ok_witness:
  "list_all valid_record scenario_history \<and> scenario_history \<noteq> [] \<and> (6::int) \<in> set [6, 99, 60] \<and>
   (\<exists>delays. analyze_delays binary64 (frame_of scenario_history) [6, 99, 60] = Inr delays \<and>
           dom delays = set [6, 99, 60] \<and>
           delays 6 =
             Some (if \<exists>r \<in> set scenario_history. 6 \<in> set (dezenas r)
                   then Max (set (map concurso scenario_history)) -
                        Max (set (map concurso (filter (\<lambda>r. 6 \<in> set (dezenas r)) scenario_history)))
                   else - 1) \<and>
           ((\<exists>r \<in> set scenario_history. 6 \<in> set (dezenas r)) \<and>
            (\<forall>r \<in> set scenario_history. 6 \<in> set (dezenas r) \<longrightarrow>
                 concurso r = Max (set (map concurso scenario_history))) \<longrightarrow> delays 6 = Some 0))"
proof -
  have m: "(6::int) \<in> set [6, 99, 60]" by simp
  show ?thesis
    by (rule conjI[OF scenario_valid conjI[OF scenario_nonempty
          conjI[OF m analyze_delays_ok[OF scenario_valid scenario_nonempty m, of binary64]]]])
qed

text \<open>
  The delay analyzer run on the scenario, whatever the float arithmetic: 6 was last drawn
  two draws ago, 99 never, 60 in the latest draw.
\<close>

lemma spec_delay_scenario:
  "spec_delay scenario_history 6 = 2 \<and> spec_delay scenario_history 99 = - 1 \<and>
   spec_delay scenario_history 60 = 0"
  by code_simp

lemma analyze_delays_run_scenario:
  "\<exists>delays. analyze_delays F (frame_of scenario_history) [6, 99, 60] = Inr delays \<and>
       map delays [6, 99, 60, 5] = [Some 2, Some (- 1), Some 0, None]"
proof -
  have s: "[6, 99, 60] \<noteq> ([]::int list)" by simp
  show ?thesis
    unfolding analyze_delays_frame[OF scenario_valid scenario_nonempty s]
    using spec_delay_scenario by simp
qed

text \<open>
  On a frame whose draw numbers are text the maximum is a text: a number never drawn
  still gets -1, and a drawn number ends in the TypeError of the subtraction.
\<close>

lemma analyze_delays_run_text:
  "(case analyze_delays F text_frame [99] of Inl e \<Rightarrow> None | Inr delays \<Rightarrow> delays 99) = Some (- 1) \<and>
   analyze_delays F text_frame [4] = Inl TypeError"
  by (simp add: analyze_delays_def text_frame_def df_empty_def get_col_def col_max_def dropna_def
        occurrences_mask_def dezena_cols_def)

section \<open>The pattern analyzer and the caller's frame\<close>

lemma scenario_cols:
  "get_cols (frame_of scenario_history) dezena_cols =
     Inr [[IntC 1, IntC 1, IntC 10], [IntC 2, IntC 2, IntC 20], [IntC 3, IntC 3, IntC 30],
          [IntC 4, IntC 4, IntC 40], [IntC 5, IntC 5, IntC 50], [IntC 6, IntC 7, IntC 60]]"
  by code_simp

lemma scenario_row_sums:
  "row_sums F N (rows_of 3
     [[IntC 1, IntC 1, IntC 10], [IntC 2, IntC 2, IntC 20], [IntC 3, IntC 3, IntC 30],
      [IntC 4, IntC 4, IntC 40], [IntC 5, IntC 5, IntC 50], [IntC 6, IntC 7, IntC 60]]) =
   Inr [IntC 21, IntC 22, IntC 210]"
  by (simp add: rows_of_def row_sum_def upt_rec)

text \<open>
  Claim C7. The claim has every analyzer leave the history it receives unchanged. The
  frequency, probability, delay and outlier analyzers only read their arguments. The
  pattern analyzer assigns \<^verbatim>\<open>data['SomaDezenas']\<close> on the frame it was given: after the
  call on the scenario the caller's frame has a ninth column, SomaDezenas, with the row
  sums 21, 22 and 210, which it did not have before. The sums are integer sums, so
  this holds whatever the float arithmetic.
\<close>

theorem analyze_drawing_patterns_changes_frame:
  "(case analyze_drawing_patterns F N (frame_of scenario_history) of
      Inl e \<Rightarrow> None | Inr (res, data') \<Rightarrow> Some (df_columns data')) =
     Some (df_columns (frame_of scenario_history) @ [(''SomaDezenas'', [IntC 21, IntC 22, IntC 210])]) \<and>
   map_of (df_columns (frame_of scenario_history)) ''SomaDezenas'' = None"
proof -
  have e: "\<not> df_empty (frame_of scenario_history)"
    by (rule frame_of_not_empty[OF scenario_nonempty])
  have r: "df_rows (frame_of scenario_history) = 3" by (simp add: frame_of_def scenario_history_def)
  have c: "AList.update ''SomaDezenas'' soma (df_columns (frame_of scenario_history)) =
           df_columns (frame_of scenario_history) @ [(''SomaDezenas'', soma)]" for soma
    by (simp add: frame_of_def dezena_cols_def upt_rec)
  have n: "map_of (df_columns (frame_of scenario_history)) ''SomaDezenas'' = None"
    by (simp add: frame_of_def dezena_cols_def upt_rec)
  show ?thesis
    unfolding analyze_drawing_patterns_def
    using e n by (simp add: scenario_cols r scenario_row_sums set_col_def c Let_def)
qed


text \<open>The label of the split of three even and three odd numbers.\<close>

lemma split_label_run:
  "split_label (3, 3) = ''3 Pares / 3 '' @ [char_of (205::nat)] @ ''mpares''"
  by code_simp

section \<open>Empty histories\<close>

lemma collect_numbers_empty:
  assumes "wf_dataframe data" and "df_empty data"
  shows "collect_numbers data = []"
proof (cases "df_columns data = []")
  case True
  then show ?thesis by (simp add: collect_numbers_def)
next
  case False
  then have r: "df_rows data = 0" using assms(2) by (simp add: df_empty_def)
  have nil: "col = []" if "map_of (df_columns data) name = Some col" for name col
  proof -
    from that have "(name, col) \<in> set (df_columns data)" by (rule map_of_SomeD)
    then have "length col = df_rows data"
      using assms(1) by (auto simp: wf_dataframe_def list_all_iff)
    then show ?thesis using r by simp
  qed
  have "(case map_of (df_columns data) name of None \<Rightarrow> [] | Some col \<Rightarrow> dropna col) = []" for name
    using nil[of name] by (cases "map_of (df_columns data) name") (simp_all add: dropna_def)
  then show ?thesis by (simp add: collect_numbers_def)
qed

text \<open>
  Claim C9. On an empty frame (no rows or no columns) every analyzer returns normally
  and empty, whatever the float arithmetic: the frequency analyzer an empty table, no most common and no least common
  numbers; the delay analyzer an empty table; the pattern analyzer two empty
  dictionaries, leaving the frame as it is; the outlier detector, on the empty table, no
  outliers and deviation 0. The probability calculator returns an empty series on the
  empty table and on every table whose counts sum to zero.
\<close>

theorem empty_history_results:
  assumes "wf_dataframe data" and "df_empty data"
  shows "analyze_numbers data = Inr ([], [], [], []) \<and>
         calculate_probabilities F [] t = [] \<and>
         (sum_list (map snd frequencies) = 0 \<longrightarrow> calculate_probabilities F frequencies t = []) \<and>
         analyze_delays F data selected_numbers = Inr Map.empty \<and>
         analyze_drawing_patterns F N data = Inr (([], []), data) \<and>
         analyze_outliers F N [] = Inr ([], 0)"
proof -
  have "analyze_numbers data = Inr ([], [], [], [])"
    by (simp add: analyze_numbers_def collect_numbers_empty[OF assms])
  moreover have "calculate_probabilities F [] t = []"
    by (simp add: calculate_probabilities_def)
  moreover have "sum_list (map snd frequencies) = 0 \<longrightarrow> calculate_probabilities F frequencies t = []"
    by (simp add: calculate_probabilities_def)
  moreover have "analyze_delays F data selected_numbers = Inr Map.empty"
    using assms(2) by (simp add: analyze_delays_def)
  moreover have "analyze_drawing_patterns F N data = Inr (([], []), data)"
    using assms(2) by (simp add: analyze_drawing_patterns_def)
  moreover have "analyze_outliers F N [] = Inr ([], 0)"
    by (simp add: analyze_outliers_def)
  ultimately show ?thesis by blast
qed

lemma frame_of_wf: "wf_dataframe (frame_of history)"
  by (simp add: wf_dataframe_def frame_of_def dezena_cols_def upt_rec)

theorem empty_history_results_witness:
  "wf_dataframe (frame_of []) \<and> df_empty (frame_of []) \<and>
   sum_list (map snd [(7::int, 0::int), (9, 0)]) = 0 \<and>
   analyze_numbers (frame_of []) = Inr ([], [], [], []) \<and>
   calculate_probabilities binary64 [] 60 = [] \<and>
   calculate_probabilities binary64 [(7, 0), (9, 0)] 60 = [] \<and>
   analyze_delays binary64 (frame_of []) [6, 99] = Inr Map.empty \<and>
   analyze_drawing_patterns binary64 (seq_numpy binary64) (frame_of []) = Inr (([], []), frame_of []) \<and>
   analyze_outliers binary64 (seq_numpy binary64) [] = Inr ([], 0)"
proof -
  have e: "df_empty (frame_of [])" by (simp add: df_empty_def frame_of_def)
  have z: "sum_list (map snd [(7::int, 0::int), (9, 0)]) = 0" by simp
  show ?thesis
    using empty_history_results[OF frame_of_wf e, where F = binary64 and N = "seq_numpy binary64"
        and t = 60 and frequencies = "[(7, 0), (9, 0)]" and selected_numbers = "[6, 99]"]
      frame_of_wf e z
    by blast
qed

section \<open>Properties of the probability calculator\<close>





text \<open>The calculator run in exact arithmetic.\<close>

lemma calculate_probabilities_run:
  "calculate_probabilities exact_ops [(5, 1), (1, 2), (3, 0)] 60 = [(1, 200 / 3), (5, 100 / 3), (3, 0)]"
  by (simp add: calculate_probabilities_def exact_ops_def sort_values_desc_def)


section \<open>Properties of the outlier detector\<close>

lemma seq_std_single_binary64: "seq_std binary64 [3] = 0"
  by (simp add: seq_std_def seq_mean_def seq_sum_def binary64_def fl_0 fl_1 fl_3)

lemma seq_std_single_exact: "seq_std exact_ops [x] = 0"
  by (simp add: seq_std_def seq_mean_def seq_sum_def exact_ops_def)

text \<open>
  Claim C4. The default window is \<open>min 10 (len div 2)\<close> on a non-empty table, and a
  window longer than the sequence gives deviation 0 and no anomalies, as the claim says.
  But the window is not at least 1: a table with a single number has window 0. The guard
  does not fire then (1 is not below 0), the moving average is the zero vector, the
  deviation of the one residual is 0, and the only number is reported as an outlier
  because its count exceeds 0. So the shortest history does report an outlier, in
  binary64 arithmetic as in exact arithmetic.
\<close>

theorem single_number_flagged:
  "default_window_size [(7, 3)] = 0 \<and>
   analyze_outliers binary64 (seq_numpy binary64) [(7, 3)] = Inr ([7], 0) \<and>
   analyze_outliers exact_ops (seq_numpy exact_ops) [(7, 3)] = Inr ([7], 0)"
proof -
  have w: "default_window_size [(7, 3)] = 0" by (simp add: default_window_size_def)
  have b: "analyze_outliers binary64 (seq_numpy binary64) [(7, 3)] = Inr ([7], 0)"
    unfolding analyze_outliers_def explain_anomalies_def moving_average_def w
    by (simp add: seq_numpy_def py_round2_def round_half_even_def binary64_def
          seq_std_single_binary64[unfolded binary64_def] fl_0 fl_3)
  have e: "analyze_outliers exact_ops (seq_numpy exact_ops) [(7, 3)] = Inr ([7], 0)"
    unfolding analyze_outliers_def explain_anomalies_def moving_average_def w
    by (simp add: seq_numpy_def py_round2_def round_half_even_def exact_ops_def
          seq_std_single_exact[unfolded exact_ops_def])
  show ?thesis using w b e by simp
qed

lemma default_window_size_eq:
  "frequencies \<noteq> [] \<Longrightarrow>
   default_window_size frequencies = min 10 (int (length frequencies) div 2)"
  by (simp add: default_window_size_def)

lemma default_window_size_pos:
  "2 \<le> length frequencies \<Longrightarrow> 1 \<le> default_window_size frequencies"
  by (auto simp: default_window_size_def)

lemma explain_anomalies_guard:
  "int (length y) < window_size \<Longrightarrow>
   explain_anomalies F N frequencies y window_size sigma = Inr (0, [])"
  by (simp add: explain_anomalies_def)










text \<open>In exact arithmetic it is the centered moving average and the textbook deviation.\<close>

lemma fold_add: "fold (\<lambda>x acc. acc + x) xs (a::real) = a + sum_list xs"
  by (induction xs arbitrary: a) simp_all

lemma seq_sum_exact: "seq_sum exact_ops xs = sum_list xs"
  by (simp add: seq_sum_def exact_ops_def fold_add)

lemma seq_std_exact:
  "seq_std exact_ops xs =
     sqrt ((\<Sum>x\<leftarrow>xs. (x - sum_list xs / real (length xs))\<^sup>2) / real (length xs))"
  by (simp add: seq_std_def seq_mean_def seq_sum_exact power2_eq_square)
     (simp add: exact_ops_def)

lemma half_split:
  fixes w :: nat
  assumes "1 \<le> w"
  shows "(w - 1) div 2 + w div 2 + 1 = w"
  using assms by arith

lemma window_sum:
  fixes w :: nat
  assumes "1 \<le> w"
  shows "(j \<le> i + (w - 1) div 2 \<and> i + (w - 1) div 2 - j < w) \<longleftrightarrow>
         (int i - int (w div 2) \<le> int j \<and> j \<le> i + (w - 1) div 2)"
proof -
  define s where "s = (w - 1) div 2"
  define h where "h = w div 2"
  have "s + h + 1 = w" unfolding s_def h_def by (rule half_split[OF assms])
  then have "(j \<le> i + s \<and> i + s - j < w) \<longleftrightarrow> (int i - int h \<le> int j \<and> j \<le> i + s)"
    by linarith
  then show ?thesis unfolding s_def h_def .
qed


lemma seq_convolve_full_nth:
  assumes "k < length a + length v - 1"
  shows "seq_convolve_full exact_ops a v ! k =
         (\<Sum>j\<leftarrow>[0..<length a]. if j \<le> k \<and> k - j < length v then a ! j * v ! (k - j) else 0)"
proof -
  have "seq_convolve_full exact_ops a v ! k =
        (\<lambda>k. seq_sum exact_ops (map (\<lambda>j. f_mul exact_ops (a ! j) (v ! (k - j)))
                            (filter (\<lambda>j. j \<le> k \<and> k - j < length v) [0..<length a])))
          (0 + k)"
    unfolding seq_convolve_full_def using assms by (intro nth_map_upt) simp
  also have "\<dots> = (\<Sum>j\<leftarrow>filter (\<lambda>j. j \<le> k \<and> k - j < length v) [0..<length a]. a ! j * v ! (k - j))"
    by (simp add: seq_sum_exact) (simp add: exact_ops_def)
  also have "\<dots> = (\<Sum>j\<leftarrow>[0..<length a]. if j \<le> k \<and> k - j < length v then a ! j * v ! (k - j) else 0)"
    by (rule sum_list_map_filter')
  finally show ?thesis .
qed

lemma moving_average_centered:
  assumes w1: "1 \<le> w" and wl: "w \<le> length y"
  shows "moving_average exact_ops (seq_numpy exact_ops) y (int w) = Inr (spec_moving_average y w)"
proof -
  let ?v = "replicate w (1 / real w)"
  let ?s = "(w - 1) div 2"
  have ne: "y \<noteq> []" using w1 wl by auto
  have full_len: "length (seq_convolve_full exact_ops y ?v) = length y + w - 1"
    by (simp add: seq_convolve_full_def)
  have "take (length y) (drop ?s (seq_convolve_full exact_ops y ?v)) = spec_moving_average y w"
  proof (rule nth_equalityI)
    show "length (take (length y) (drop ?s (seq_convolve_full exact_ops y ?v))) =
          length (spec_moving_average y w)"
      using w1 by (simp add: full_len spec_moving_average_def)
  next
    fix i assume "i < length (take (length y) (drop ?s (seq_convolve_full exact_ops y ?v)))"
    then have i: "i < length y" by simp
    have k: "?s + i < length y + length ?v - 1" using i w1 by simp
    have "take (length y) (drop ?s (seq_convolve_full exact_ops y ?v)) ! i =
          seq_convolve_full exact_ops y ?v ! (?s + i)"
      using i w1 by (simp add: full_len)
    also have "\<dots> = (\<Sum>j\<leftarrow>[0..<length y].
                       if j \<le> ?s + i \<and> ?s + i - j < length ?v then y ! j * ?v ! (?s + i - j) else 0)"
      by (rule seq_convolve_full_nth[OF k])
    also have "\<dots> = (\<Sum>j\<leftarrow>[0..<length y].
                       (if int i - int (w div 2) \<le> int j \<and> j \<le> i + ?s then y ! j else 0) * (1 / real w))"
    proof (rule arg_cong[where f = sum_list], rule map_cong[OF refl])
      fix j
      show "(if j \<le> ?s + i \<and> ?s + i - j < length ?v then y ! j * ?v ! (?s + i - j) else 0) =
            (if int i - int (w div 2) \<le> int j \<and> j \<le> i + ?s then y ! j else 0) * (1 / real w)"
        using window_sum[OF w1, of j i] by (auto simp: add.commute)
    qed
    also have "\<dots> = (\<Sum>j\<leftarrow>[0..<length y].
                       (if int i - int (w div 2) \<le> int j \<and> j \<le> i + ?s then y ! j else 0)) * (1 / real w)"
      by (rule sum_list_mult_const)
    finally show "take (length y) (drop ?s (seq_convolve_full exact_ops y ?v)) ! i =
                  spec_moving_average y w ! i"
      using i by (simp add: spec_moving_average_def)
  qed
  then have cs: "seq_correlate_same exact_ops y ?v = spec_moving_average y w"
    by (simp add: seq_correlate_same_def)
  have fd: "f_div exact_ops 1 (f_of_int exact_ops (int w)) = 1 / real w"
    by (simp add: exact_ops_def)
  show ?thesis
    using w1 wl ne
    by (simp add: moving_average_def np_convolve_same_def seq_numpy_def fd cs)
qed



text \<open>
  The detector run in exact arithmetic with window 2 and sensitivity 0.5 on the values 4
  and 0: the average is 2 at both places, the deviation 2, and both are flagged.
\<close>

lemma explain_anomalies_run:
  "explain_anomalies exact_ops (seq_numpy exact_ops) [(10, 4), (20, 0)] [4, 0] 2 (1 / 2) =
     Inr (2, [(10, 4), (20, 0)])"
proof -
  have w: "(1::nat) \<le> 2" "(2::nat) \<le> length [4, 0::real]" by simp_all
  have "spec_moving_average [4, 0] 2 = [2, 2]"
    by (simp add: spec_moving_average_def upt_rec)
  then have ma: "moving_average exact_ops (seq_numpy exact_ops) [4, 0] 2 = Inr [2, 2]"
    using moving_average_centered[OF w] by simp
  have "sqrt 4 = 2" using real_sqrt_abs[of 2] by simp
  then have sd: "seq_std exact_ops [2, - 2] = 2" by (simp add: seq_std_exact)
  have r: "py_round2 exact_ops 2 = 2"
    by (simp add: py_round2_def round_half_even_def exact_ops_def)
  have n: "np_std (seq_numpy exact_ops) = seq_std exact_ops" by (simp add: seq_numpy_def)
  show ?thesis
    unfolding explain_anomalies_def
    by (simp add: exact_ops_def ma[unfolded exact_ops_def] n[unfolded exact_ops_def]
          sd[unfolded exact_ops_def] r[unfolded exact_ops_def] Let_def)
qed

end
